theory Spec2Isabelle
  imports Main "HOL-Library.AList"
begin

section \<open>Python values and string primitives\<close>

text \<open>
  The currency-rate loader is Python. Strings are lists of characters; the model covers
  ASCII ticker strings (a character outside ASCII is left unchanged by the case
  conversions). The values that the code stores in a rate dictionary are \<open>None\<close>,
  integers and strings.
\<close>

datatype pyval = PNone | PInt int | PStr string

text \<open>Python truthiness, as used by \<open>x or y\<close> and \<open>if x\<close>.\<close>

fun truthy :: "pyval \<Rightarrow> bool" where
  "truthy PNone = False"
| "truthy (PInt n) = (n \<noteq> 0)"
| "truthy (PStr s) = (s \<noteq> [])"

definition py_or :: "pyval \<Rightarrow> pyval \<Rightarrow> pyval" where
  "py_or a b = (if truthy a then a else b)"

text \<open>\<open>s.replace(old, new)\<close> for one-character \<open>old\<close>.\<close>

definition py_replace :: "char \<Rightarrow> string \<Rightarrow> string \<Rightarrow> string" where
  "py_replace old new s = concat (map (\<lambda>c. if c = old then new else [c]) s)"

text \<open>\<open>s.rstrip(chars)\<close> for a one-character \<open>chars\<close>.\<close>

definition py_rstrip :: "char \<Rightarrow> string \<Rightarrow> string" where
  "py_rstrip ch s = rev (dropWhile (\<lambda>c. c = ch) (rev s))"

text \<open>\<open>s.split(sep)\<close> for a one-character separator: never the empty list.\<close>

fun py_split :: "char \<Rightarrow> string \<Rightarrow> string list" where
  "py_split sep [] = [[]]"
| "py_split sep (c # cs) =
     (if c = sep then [] # py_split sep cs
      else (case py_split sep cs of
              [] \<Rightarrow> [[c]]
            | t # ts \<Rightarrow> (c # t) # ts))"

text \<open>
  \<open>str.isspace\<close> on ASCII: tab, line feed, vertical tab, form feed, carriage return,
  the four separators 28..31 and the space.
\<close>

definition py_isspace :: "char \<Rightarrow> bool" where
  "py_isspace c = (let n = (of_char c :: nat) in (9 \<le> n \<and> n \<le> 13) \<or> (28 \<le> n \<and> n \<le> 32))"

definition py_strip :: "string \<Rightarrow> string" where
  "py_strip s = rev (dropWhile py_isspace (rev (dropWhile py_isspace s)))"

definition ascii_lowercase :: string where
  "ascii_lowercase = ''abcdefghijklmnopqrstuvwxyz''"

definition ascii_uppercase :: string where
  "ascii_uppercase = ''ABCDEFGHIJKLMNOPQRSTUVWXYZ''"

definition upper_char :: "char \<Rightarrow> char" where
  "upper_char c = (case map_of (zip ascii_lowercase ascii_uppercase) c of Some u \<Rightarrow> u | None \<Rightarrow> c)"

definition lower_char :: "char \<Rightarrow> char" where
  "lower_char c = (case map_of (zip ascii_uppercase ascii_lowercase) c of Some l \<Rightarrow> l | None \<Rightarrow> c)"

definition py_upper :: "string \<Rightarrow> string" where
  "py_upper s = map upper_char s"

definition py_lower :: "string \<Rightarrow> string" where
  "py_lower s = map lower_char s"

section \<open>Dictionaries\<close>

text \<open>
  A Python dictionary keeps insertion order, and the code relies on it (the values of the
  provider dictionary are returned in that order). It is an association list with
  distinct keys: \<open>d.update({k: v})\<close> is \<^const>\<open>AList.update\<close> (an existing key keeps its
  place, a new key goes last), \<open>d.get(k, default)\<close> is \<open>dict_get\<close>.
\<close>

definition dict_get :: "('k \<times> 'v) list \<Rightarrow> 'k \<Rightarrow> 'v \<Rightarrow> 'v" where
  "dict_get d k dflt = (case map_of d k of Some v \<Rightarrow> v | None \<Rightarrow> dflt)"

definition dict_values :: "('k \<times> 'v) list \<Rightarrow> 'v list" where
  "dict_values d = map snd d"

section \<open>The canonical rate record\<close>

text \<open>
  Every rate dictionary in \<open>methods.py\<close> is written as a literal with the keys
  \<open>rate_date\<close>, \<open>currency_from\<close>, \<open>currency_to\<close> and \<open>rate\<close>; the adapters add
  \<open>nominal\<close>, the not-found placeholder adds \<open>scale\<close> and \<open>error\<close>, and the
  orchestrator may add \<open>error\<close> later. The optional keys are optional fields.
\<close>

record error_dict =
  code :: string
  description :: string

record rate_dict =
  rate_date :: pyval
  currency_from :: pyval
  currency_to :: pyval
  rate :: pyval
  nominal :: "pyval option"
  scale :: "pyval option"
  error :: "error_dict option"

type_synonym res_dict = "(pyval \<times> rate_dict) list"

section \<open>The adapters (\<open>methods.py\<close>)\<close>

datatype adapter_kind = CBRFMethod | ECBMethod | BinanceMethod | GarantexMethod | XEMethod

text \<open>
  The instance attributes of \<open>BaseMethod\<close>. \<open>base_currency\<close> comes from a nullable
  column, so it may be \<open>None\<close>; \<open>tickers\<close> comes from a text column that is never null.
\<close>

record adapter =
  kind :: adapter_kind
  base_currency :: "string option"
  tickers :: string
  req_type :: string
  url :: string

definition init :: "adapter_kind \<Rightarrow> string option \<Rightarrow> string \<Rightarrow> adapter" where
  "init k bc ts =
     \<lparr> kind = k,
       base_currency = (case k of CBRFMethod \<Rightarrow> Some ''RUB'' | ECBMethod \<Rightarrow> Some ''EUR'' | _ \<Rightarrow> bc),
       tickers = ts,
       req_type = ''GET'',
       url = (case k of
                CBRFMethod \<Rightarrow> ''https://www.cbr.ru/scripts/XML_daily.asp''
              | ECBMethod \<Rightarrow> ''https://www.ecb.europa.eu/stats/eurofxref/eurofxref-daily.xml''
              | BinanceMethod \<Rightarrow> ''https://api.binance.com/api/v3/exchangeInfo''
              | GarantexMethod \<Rightarrow> ''https://garantex.org/api/v2/markets''
              | XEMethod \<Rightarrow> ''https://www.xe.com/currencytables/?from={}&date={}'') \<rparr>"

subsection \<open>\<open>BaseMethod.prepare_tickers\<close>\<close>

definition prepare_tickers :: "adapter \<Rightarrow> string list" where
  "prepare_tickers self =
     (if tickers self \<noteq> []
      then map (\<lambda>ticker. py_upper (py_strip ticker))
             (py_split (CHR '','') (py_rstrip (CHR '','') (py_replace (CHR ''/'') [] (tickers self))))
      else [])"

subsection \<open>\<open>validate_tickers\<close>, one per adapter\<close>

text \<open>
  A \<open>RequestException\<close> as the handler of \<open>tasks.py\<close> looks at it: the attribute
  \<open>response\<close> holds a response with its status code and reason, or holds \<open>None\<close>
  (what the HTTP client sets when no response arrived: a refused connection, a timeout),
  or is missing.
\<close>

datatype request_exception = ResponseAttr "(int \<times> string) option" | NoResponseAttr

datatype exception =
    Exception
  | RequestException request_exception
  | AttributeError
  | TypeError
  | IndexError
  | ValueError
  | InvalidOperation
  | ParseError

text \<open>The loop \<open>for ticker in ...: if bad(ticker): raise Exception\<close>.\<close>

fun raise_if_any :: "(string \<Rightarrow> bool) \<Rightarrow> string list \<Rightarrow> exception + unit" where
  "raise_if_any bad [] = Inr ()"
| "raise_if_any bad (ticker # rest) = (if bad ticker then Inl Exception else raise_if_any bad rest)"

definition validate_tickers :: "adapter \<Rightarrow> exception + unit" where
  "validate_tickers self =
     (case kind self of
        CBRFMethod \<Rightarrow> raise_if_any (\<lambda>ticker. length ticker \<noteq> 3) (prepare_tickers self)
      | ECBMethod \<Rightarrow> raise_if_any (\<lambda>ticker. length ticker \<noteq> 3) (prepare_tickers self)
      | BinanceMethod \<Rightarrow> raise_if_any (\<lambda>ticker. length ticker < 2) (prepare_tickers self)
      | GarantexMethod \<Rightarrow> raise_if_any (\<lambda>ticker. length ticker < 2) (prepare_tickers self)
      | XEMethod \<Rightarrow> raise_if_any (\<lambda>ticker. length ticker < 3) (prepare_tickers self))"

subsection \<open>\<open>BaseMethod.add_currency_not_found_error\<close>\<close>

text \<open>\<open>self.base_currency or currency\<close>: \<open>None\<close> and the empty string are falsy.\<close>

definition add_currency_not_found_error :: "adapter \<Rightarrow> string \<Rightarrow> pyval \<Rightarrow> rate_dict" where
  "add_currency_not_found_error self currency date =
     \<lparr> rate_date = date,
       currency_from = PStr currency,
       currency_to = (case base_currency self of
                        Some b \<Rightarrow> if b \<noteq> [] then PStr b else PStr currency
                      | None \<Rightarrow> PStr currency),
       rate = PStr ''0'',
       nominal = None,
       scale = Some (PInt 0),
       error = Some \<lparr> code = ''404'', description = ''Currency not found'' \<rparr> \<rparr>"

subsection \<open>\<open>BaseMethod.find_key\<close> and \<open>BaseMethod.handle_response\<close>\<close>

datatype currency_option = To | From

definition currency_of :: "currency_option \<Rightarrow> rate_dict \<Rightarrow> pyval" where
  "currency_of opt v = (case opt of To \<Rightarrow> currency_to v | From \<Rightarrow> currency_from v)"

definition find_key :: "res_dict \<Rightarrow> string \<Rightarrow> currency_option \<Rightarrow> pyval list" where
  "find_key res_dict currency opt =
     (let currency' = py_replace (CHR ''*'') [] currency
      in map fst (filter (\<lambda>(key, v). currency_of opt v = PStr currency') res_dict))"

text \<open>The inner function \<open>_list_appender\<close>: what it appends to \<open>ans_list\<close>.\<close>

definition list_appender :: "adapter \<Rightarrow> res_dict \<Rightarrow> pyval \<Rightarrow> string \<Rightarrow> currency_option \<Rightarrow> rate_dict list" where
  "list_appender self res_dict date currency opt =
     map (\<lambda>res. dict_get res_dict res (add_currency_not_found_error self currency date))
       (find_key res_dict currency opt)"

text \<open>The loop \<open>for currency in tickers\<close>, with \<open>ans_list\<close> as the accumulator.\<close>

fun for_currency :: "adapter \<Rightarrow> res_dict \<Rightarrow> pyval \<Rightarrow> rate_dict list \<Rightarrow> string list \<Rightarrow> rate_dict list" where
  "for_currency self res_dict date ans_list [] = ans_list"
| "for_currency self res_dict date ans_list (currency # rest) =
     (if CHR ''*'' \<in> set currency \<and> hd currency = CHR ''*''
      then for_currency self res_dict date (ans_list @ list_appender self res_dict date currency To) rest
      else if CHR ''*'' \<in> set currency \<and> last currency = CHR ''*''
      then for_currency self res_dict date (ans_list @ list_appender self res_dict date currency From) rest
      else for_currency self res_dict date
             (ans_list @ [dict_get res_dict (PStr currency) (add_currency_not_found_error self currency date)])
             rest)"

text \<open>
  \<open>handle_response\<close> after its call of \<open>prepare_data\<close>: the argument is the pair
  \<open>(res_dict, date)\<close> that \<open>prepare_data\<close> returned.
\<close>

definition resolve_tickers :: "adapter \<Rightarrow> res_dict \<times> pyval \<Rightarrow> rate_dict list" where
  "resolve_tickers self prepared =
     (case prepared of (res_dict, date) \<Rightarrow>
        (let prepared_tickers = prepare_tickers self
         in if prepared_tickers = [] then dict_values res_dict
            else for_currency self res_dict date [] prepared_tickers))"

section \<open>The outside world\<close>

text \<open>
  The HTTP client, the parsers (\<open>xmltodict\<close>, \<open>Response.json\<close>, \<open>BeautifulSoup\<close>), the
  clock and the date and decimal conversions are libraries outside the repository. A
  response carries the value its parser returns, typed by the wire format of the
  provider; a body of another format makes the parser raise (\<open>ParseError\<close>).
  \<open>BeautifulSoup\<close> raises on no text: a page without a table body gives \<open>None\<close>
  for \<open>tbody\<close>, and reading \<open>stripped_strings\<close> of it raises \<open>AttributeError\<close>.
  JSON numbers are integers here, and the fields of the metadata entries are strings.

  \<open>xmltodict\<close> gives no key for an element that has no such child, a dictionary for a
  single child and a list of dictionaries for repeated children. A key of a child's
  dictionary is absent (\<open>None\<close> here) or holds text; \<open>Nominal\<close> is read with the default
  \<open>''\<close>, so for it an absent key and a key that holds \<open>None\<close> differ.
\<close>

datatype 'a xml_children = NoChild | OneChild 'a | Children "'a list"

record valute =
  CharCode :: "string option"
  Value :: "string option"
  Nominal :: "pyval option"

record val_curs =
  at_Date :: "string option"
  Valute :: "valute xml_children"

record cube =
  at_currency :: "string option"
  at_rate :: "string option"

record cube_day =
  at_time :: "string option"
  Cube :: "cube xml_children"

record coin =
  symbol :: string
  baseAsset :: string
  quoteAsset :: string

record market =
  market_id :: string
  ask_unit :: string
  bid_unit :: string

datatype content =
    ValCursXml "val_curs option"
  | EnvelopeXml "cube_day option"
  | ExchangeInfoJson "coin list option"
  | AvgPriceJson "pyval option"
  | MarketsJson "market list"
  | TradesJson "pyval option list"
  | CurrencyTableHtml "string list option"

record response =
  status_code :: int
  reason :: string
  content :: content

type_synonym timestamp = int
type_synonym decimal = int

text \<open>
  The environment of one run. \<open>net n m u\<close> is what the \<open>n\<close>-th HTTP request of the run
  gets for method \<open>m\<close> and URL \<open>u\<close>: a response or a \<open>RequestException\<close>. \<open>clock n\<close> is
  the \<open>n\<close>-th reading of the clock, in microseconds. A decimal number is its value in
  units of the rate column's precision.
\<close>

record env =
  net :: "nat \<Rightarrow> string \<Rightarrow> string \<Rightarrow> request_exception + response"
  clock :: "nat \<Rightarrow> timestamp"
  hour :: "timestamp \<Rightarrow> nat"
  strftime_dmy :: "timestamp \<Rightarrow> string"
  strftime_ymd :: "timestamp \<Rightarrow> string"
  ymd_to_dmy :: "string \<Rightarrow> string option"
  strptime_dmy :: "string \<Rightarrow> timestamp option"
  decimal_of_str :: "string \<Rightarrow> decimal option"
  decimal_of_int :: "int \<Rightarrow> decimal"

section \<open>The stored tables (\<open>models.py\<close>)\<close>

datatype last_result =
    DefaultResult
  | StatusList "(int \<times> string) list list"
  | RateList "rate_dict list"

record currency_rate_type =
  pk :: int
  name :: string
  autoload_method :: string
  type_base_currency :: "string option"
  active :: bool
  interval_value :: nat
  type_tickers :: string
  autoload_lastrun :: "timestamp option"
  autoload_lastresult :: last_result

text \<open>
  A row of \<open>CurrencyRate\<close> keeps the values it was given; the column constraints of the
  database are not modelled.
\<close>

record currency_rate =
  row_rate_type_id :: int
  row_currency_from :: pyval
  row_currency_to :: pyval
  row_rate :: decimal
  row_rate_date :: timestamp
  row_nominal :: "pyval option"

record world =
  requests :: "(string \<times> string) list"
  ticks :: nat
  currency_rate_types :: "currency_rate_type list"
  currency_rates :: "currency_rate list"

type_synonym 'a result = "(exception + 'a) \<times> world"

definition and_then :: "'a result \<Rightarrow> ('a \<Rightarrow> world \<Rightarrow> 'b result) \<Rightarrow> 'b result" where
  "and_then r f = (case r of (Inl e, w) \<Rightarrow> (Inl e, w) | (Inr x, w) \<Rightarrow> f x w)"

text \<open>\<open>for x in xs: body\<close> over a state \<open>s\<close>; an exception leaves the loop.\<close>

fun for_each :: "('a \<Rightarrow> 's \<Rightarrow> world \<Rightarrow> 's result) \<Rightarrow> 'a list \<Rightarrow> 's \<Rightarrow> world \<Rightarrow> 's result" where
  "for_each body [] s w = (Inr s, w)"
| "for_each body (x # xs) s w = and_then (body x s w) (for_each body xs)"

definition now :: "env \<Rightarrow> world \<Rightarrow> timestamp \<times> world" where
  "now e w = (clock e (ticks w), w\<lparr>ticks := Suc (ticks w)\<rparr>)"

text \<open>\<open>requests.request(method, url)\<close>: the attempt is logged, whatever comes back.\<close>

definition request :: "env \<Rightarrow> string \<Rightarrow> string \<Rightarrow> world \<Rightarrow> response result" where
  "request e m u w =
     (let w' = w\<lparr>requests := requests w @ [(m, u)]\<rparr>
      in case net e (length (requests w)) m u of
           Inl x \<Rightarrow> (Inl (RequestException x), w')
         | Inr r \<Rightarrow> (Inr r, w'))"

text \<open>\<open>Response.raise_for_status\<close>: an \<open>HTTPError\<close> that carries the response.\<close>

definition raise_for_status :: "response \<Rightarrow> exception + unit" where
  "raise_for_status r =
     (if 400 \<le> status_code r \<and> status_code r < 600
      then Inl (RequestException (ResponseAttr (Some (status_code r, reason r))))
      else Inr ())"

definition of_opt :: "string option \<Rightarrow> pyval" where
  "of_opt x = (case x of None \<Rightarrow> PNone | Some s \<Rightarrow> PStr s)"

text \<open>
  Iterating the value of \<open>d.get(key, {})\<close> for an element's children. Iterating the
  dictionary of a single child gives its keys, and a key is a string, which has no
  \<open>get\<close>: the first statement of the loop body raises.
\<close>

definition iter_children :: "'a xml_children \<Rightarrow> exception + 'a list" where
  "iter_children c =
     (case c of
        NoChild \<Rightarrow> Inr []
      | OneChild v \<Rightarrow> Inl AttributeError
      | Children vs \<Rightarrow> Inr vs)"

subsection \<open>\<open>CBRFMethod.prepare_data\<close>\<close>

definition cbrf_update :: "adapter \<Rightarrow> pyval \<Rightarrow> valute \<Rightarrow> res_dict \<Rightarrow> exception + res_dict" where
  "cbrf_update self date val_dict res_dict =
     (case Value val_dict of
        None \<Rightarrow> Inl AttributeError
      | Some v \<Rightarrow>
          Inr (AList.update (of_opt (CharCode val_dict))
                 \<lparr> rate_date = date,
                   currency_from = of_opt (CharCode val_dict),
                   currency_to = of_opt (base_currency self),
                   rate = PStr (py_replace (CHR '','') ''.'' v),
                   nominal = Some (case Nominal val_dict of None \<Rightarrow> PStr [] | Some n \<Rightarrow> n),
                   scale = None,
                   error = None \<rparr>
                 res_dict))"

definition cbrf_prepare_data :: "adapter \<Rightarrow> response \<Rightarrow> world \<Rightarrow> (res_dict \<times> pyval) result" where
  "cbrf_prepare_data self resp w =
     (case content resp of
        ValCursXml None \<Rightarrow> (Inl AttributeError, w)
      | ValCursXml (Some raw) \<Rightarrow>
          (let date = of_opt (at_Date raw)
           in case iter_children (Valute raw) of
                Inl x \<Rightarrow> (Inl x, w)
              | Inr vals \<Rightarrow>
                  and_then (for_each (\<lambda>val_dict res_dict w. (cbrf_update self date val_dict res_dict, w)) vals [] w)
                    (\<lambda>res_dict w. (Inr (res_dict, date), w)))
      | _ \<Rightarrow> (Inl ParseError, w))"

subsection \<open>\<open>ECBMethod.prepare_data\<close>\<close>

definition ecb_update :: "adapter \<Rightarrow> pyval \<Rightarrow> cube \<Rightarrow> res_dict \<Rightarrow> res_dict" where
  "ecb_update self date val_dict res_dict =
     AList.update (of_opt (at_currency val_dict))
       \<lparr> rate_date = date,
         currency_from = of_opt (base_currency self),
         currency_to = of_opt (at_currency val_dict),
         rate = of_opt (at_rate val_dict),
         nominal = Some (PInt 1),
         scale = None,
         error = None \<rparr>
       res_dict"

definition ecb_prepare_data :: "env \<Rightarrow> adapter \<Rightarrow> response \<Rightarrow> world \<Rightarrow> (res_dict \<times> pyval) result" where
  "ecb_prepare_data e self resp w =
     (case content resp of
        EnvelopeXml None \<Rightarrow> (Inl AttributeError, w)
      | EnvelopeXml (Some raw) \<Rightarrow>
          (case at_time raw of
             None \<Rightarrow> (Inl TypeError, w)
           | Some t \<Rightarrow>
               (case ymd_to_dmy e t of
                  None \<Rightarrow> (Inl ValueError, w)
                | Some d \<Rightarrow>
                    (case iter_children (Cube raw) of
                       Inl x \<Rightarrow> (Inl x, w)
                     | Inr vals \<Rightarrow>
                         and_then
                           (for_each (\<lambda>val_dict res_dict w. (Inr (ecb_update self (PStr d) val_dict res_dict), w))
                              vals [] w)
                           (\<lambda>res_dict w. (Inr (res_dict, PStr d), w)))))
      | _ \<Rightarrow> (Inl ParseError, w))"

subsection \<open>\<open>BinanceMethod\<close>: \<open>request_rate\<close> and \<open>prepare_data\<close>\<close>

definition binance_rate_url :: "string \<Rightarrow> string" where
  "binance_rate_url ticker = ''https://api.binance.com/api/v3/avgPrice?symbol='' @ ticker"

definition binance_request_rate :: "env \<Rightarrow> adapter \<Rightarrow> string \<Rightarrow> world \<Rightarrow> pyval result" where
  "binance_request_rate e self ticker w =
     and_then (request e (req_type self) (binance_rate_url ticker) w)
       (\<lambda>resp w. case content resp of
                    AvgPriceJson price \<Rightarrow> (Inr (py_or (case price of None \<Rightarrow> PNone | Some p \<Rightarrow> p) (PInt 0)), w)
                  | _ \<Rightarrow> (Inl ParseError, w))"

definition binance_make_dct :: "env \<Rightarrow> adapter \<Rightarrow> pyval \<Rightarrow> string \<Rightarrow> string \<Rightarrow> res_dict \<Rightarrow> world \<Rightarrow> res_dict result" where
  "binance_make_dct e self date base quote res_dict w =
     and_then (binance_request_rate e self (base @ quote) w)
       (\<lambda>r w. (Inr (AList.update (PStr (base @ quote))
                      \<lparr> rate_date = date,
                        currency_from = PStr base,
                        currency_to = PStr quote,
                        rate = r,
                        nominal = Some (PInt 1),
                        scale = None,
                        error = None \<rparr>
                      res_dict), w))"

definition binance_for_tick :: "env \<Rightarrow> adapter \<Rightarrow> pyval \<Rightarrow> coin list \<Rightarrow> string \<Rightarrow> res_dict \<Rightarrow> world \<Rightarrow> res_dict result" where
  "binance_for_tick e self date raw_dict tick res_dict w =
     (if CHR ''*'' \<in> set tick
      then (if hd tick = CHR ''*''
            then for_each (\<lambda>coin res_dict w.
                             if py_replace (CHR ''*'') [] tick = quoteAsset coin
                             then binance_make_dct e self date (baseAsset coin) (quoteAsset coin) res_dict w
                             else (Inr res_dict, w))
                   raw_dict res_dict w
            else if last tick = CHR ''*''
            then for_each (\<lambda>coin res_dict w.
                             if py_replace (CHR ''*'') [] tick = baseAsset coin
                             then binance_make_dct e self date (baseAsset coin) (quoteAsset coin) res_dict w
                             else (Inr res_dict, w))
                   raw_dict res_dict w
            else (Inr res_dict, w))
      else (case find (\<lambda>coin. tick = symbol coin) raw_dict of
              None \<Rightarrow> (Inr res_dict, w)
            | Some coin \<Rightarrow> binance_make_dct e self date (baseAsset coin) (quoteAsset coin) res_dict w))"

definition binance_prepare_data :: "env \<Rightarrow> adapter \<Rightarrow> response \<Rightarrow> world \<Rightarrow> (res_dict \<times> pyval) result" where
  "binance_prepare_data e self resp w =
     (case content resp of
        ExchangeInfoJson symbols \<Rightarrow>
          (let raw_dict = (case symbols of None \<Rightarrow> [] | Some cs \<Rightarrow> cs);
               tw = now e w;
               date = PStr (strftime_dmy e (fst tw))
           in and_then (for_each (binance_for_tick e self date raw_dict) (prepare_tickers self) [] (snd tw))
                (\<lambda>res_dict w. (Inr (res_dict, date), w)))
      | _ \<Rightarrow> (Inl ParseError, w))"

subsection \<open>\<open>GarantexMethod\<close>: \<open>request_rate\<close> and \<open>prepare_data\<close>\<close>

definition garantex_curr_url :: "string \<Rightarrow> string" where
  "garantex_curr_url ticker = ''https://garantex.org/api/v2/trades?market='' @ ticker"

definition garantex_request_rate :: "env \<Rightarrow> adapter \<Rightarrow> string \<Rightarrow> world \<Rightarrow> pyval result" where
  "garantex_request_rate e self ticker w =
     and_then (request e (req_type self) (garantex_curr_url ticker) w)
       (\<lambda>resp w. case content resp of
                    TradesJson [] \<Rightarrow> (Inl IndexError, w)
                  | TradesJson (trade # _) \<Rightarrow>
                      (Inr (py_or (case trade of None \<Rightarrow> PNone | Some p \<Rightarrow> p) (PInt 0)), w)
                  | _ \<Rightarrow> (Inl ParseError, w))"

definition garantex_make_dct :: "env \<Rightarrow> adapter \<Rightarrow> pyval \<Rightarrow> string \<Rightarrow> string \<Rightarrow> res_dict \<Rightarrow> world \<Rightarrow> res_dict result" where
  "garantex_make_dct e self date base quote res_dict w =
     and_then (garantex_request_rate e self (py_lower (base @ quote)) w)
       (\<lambda>r w. (Inr (AList.update (PStr (base @ quote))
                      \<lparr> rate_date = date,
                        currency_from = PStr base,
                        currency_to = PStr quote,
                        rate = r,
                        nominal = Some (PInt 1),
                        scale = None,
                        error = None \<rparr>
                      res_dict), w))"

definition garantex_for_tick :: "env \<Rightarrow> adapter \<Rightarrow> pyval \<Rightarrow> market list \<Rightarrow> string \<Rightarrow> res_dict \<Rightarrow> world \<Rightarrow> res_dict result" where
  "garantex_for_tick e self date raw_dict tick0 res_dict w =
     (let tick = py_lower tick0
      in if CHR ''*'' \<in> set tick
         then (if hd tick = CHR ''*''
               then for_each (\<lambda>coin res_dict w.
                                if py_replace (CHR ''*'') [] tick = bid_unit coin
                                then garantex_make_dct e self date (py_upper (ask_unit coin)) (py_upper (bid_unit coin)) res_dict w
                                else (Inr res_dict, w))
                      raw_dict res_dict w
               else if last tick = CHR ''*''
               then for_each (\<lambda>coin res_dict w.
                                if py_replace (CHR ''*'') [] tick = ask_unit coin
                                then garantex_make_dct e self date (py_upper (ask_unit coin)) (py_upper (bid_unit coin)) res_dict w
                                else (Inr res_dict, w))
                      raw_dict res_dict w
               else (Inr res_dict, w))
         else (case find (\<lambda>coin. tick = market_id coin) raw_dict of
                 None \<Rightarrow> (Inr res_dict, w)
               | Some coin \<Rightarrow>
                   garantex_make_dct e self date (py_upper (ask_unit coin)) (py_upper (bid_unit coin)) res_dict w))"

definition garantex_prepare_data :: "env \<Rightarrow> adapter \<Rightarrow> response \<Rightarrow> world \<Rightarrow> (res_dict \<times> pyval) result" where
  "garantex_prepare_data e self resp w =
     (case content resp of
        MarketsJson raw_dict \<Rightarrow>
          (let tw = now e w;
               date = PStr (strftime_dmy e (fst tw))
           in and_then (for_each (garantex_for_tick e self date raw_dict) (prepare_tickers self) [] (snd tw))
                (\<lambda>res_dict w. (Inr (res_dict, date), w)))
      | _ \<Rightarrow> (Inl ParseError, w))"

subsection \<open>\<open>XEMethod\<close>: \<open>prepare_request\<close> and \<open>prepare_data\<close>\<close>

record request_entry =
  req_method :: string
  req_url :: string
  req_ticker :: string

definition xe_url :: "string \<Rightarrow> string \<Rightarrow> string" where
  "xe_url frm date = ''https://www.xe.com/currencytables/?from='' @ frm @ ''&date='' @ date"

definition timedelta_days :: "int \<Rightarrow> timestamp" where
  "timedelta_days n = n * 86400000000"

definition xe_prepare_request :: "env \<Rightarrow> adapter \<Rightarrow> world \<Rightarrow> (string \<times> request_entry) list \<times> world" where
  "xe_prepare_request e self w =
     (let tw = now e w;
          current_time = fst tw;
          date = (if hour e current_time > 4 then current_time - timedelta_days 1
                  else current_time - timedelta_days 2)
      in (fold (\<lambda>tick request_data.
                  if length (py_replace (CHR ''*'') [] tick) = 3
                  then AList.update tick
                         \<lparr> req_method = req_type self,
                           req_url = xe_url (py_replace (CHR ''*'') [] tick) (strftime_ymd e date),
                           req_ticker = py_replace (CHR ''*'') [] tick \<rparr> request_data
                  else AList.update tick
                         \<lparr> req_method = req_type self,
                           req_url = xe_url (take 3 tick) (strftime_ymd e date),
                           req_ticker = py_replace (CHR ''*'') [] tick \<rparr> request_data)
            (prepare_tickers self) [],
          snd tw))"

text \<open>The slice \<open>xs[::4]\<close>; \<open>xs[k::4]\<close> is \<open>stride4 (drop k xs)\<close>.\<close>

fun stride4 :: "'a list \<Rightarrow> 'a list" where
  "stride4 [] = []"
| "stride4 (x # xs) = x # stride4 (drop 3 xs)"

definition py_index :: "'a list \<Rightarrow> nat \<Rightarrow> exception + 'a" where
  "py_index xs i = (if i < length xs then Inr (xs ! i) else Inl IndexError)"

text \<open>
  One round of the loop over the rows of the table: two updates of \<open>res_dict\<close>. An
  index out of range raises \<open>IndexError\<close>, and the dictionary is lost with it, so the
  three reads are made first.
\<close>

definition xe_row :: "pyval \<Rightarrow> string \<Rightarrow> string list \<Rightarrow> nat \<Rightarrow> res_dict \<Rightarrow> exception + res_dict" where
  "xe_row date ticker soup i res_dict =
     (case py_index (stride4 soup) i of
        Inl x \<Rightarrow> Inl x
      | Inr quote \<Rightarrow>
          (case py_index (stride4 (drop 2 soup)) i of
             Inl x \<Rightarrow> Inl x
           | Inr forward_rate \<Rightarrow>
               (case py_index (stride4 (drop 3 soup)) i of
                  Inl x \<Rightarrow> Inl x
                | Inr inverse_rate \<Rightarrow>
                    Inr (AList.update (PStr (quote @ take 3 ticker))
                           \<lparr> rate_date = date,
                             currency_from = PStr quote,
                             currency_to = PStr (take 3 ticker),
                             rate = PStr inverse_rate,
                             nominal = Some (PInt 1),
                             scale = None,
                             error = None \<rparr>
                           (AList.update (PStr (take 3 ticker @ quote))
                              \<lparr> rate_date = date,
                                currency_from = PStr (take 3 ticker),
                                currency_to = PStr quote,
                                rate = PStr forward_rate,
                                nominal = Some (PInt 1),
                                scale = None,
                                error = None \<rparr>
                              res_dict)))))"

definition xe_prepare_data :: "env \<Rightarrow> adapter \<Rightarrow> (string \<times> response) list \<Rightarrow> world \<Rightarrow> (res_dict \<times> pyval) result" where
  "xe_prepare_data e self responses w =
     (let tw = now e w;
          date = PStr (strftime_dmy e (fst tw))
      in and_then
           (for_each (\<lambda>item res_dict w.
                        case content (snd item) of
                          CurrencyTableHtml (Some soup) \<Rightarrow>
                            for_each (\<lambda>i res_dict w. (xe_row date (fst item) soup i res_dict, w))
                              [0 ..< length (stride4 soup)] res_dict w
                        | _ \<Rightarrow> (Inl AttributeError, w))
              responses [] (snd tw))
           (\<lambda>res_dict w. (Inr (res_dict, date), w)))"

subsection \<open>\<open>handle_response\<close> and \<open>make_request\<close>\<close>

text \<open>
  \<open>handle_response\<close> gets one response, or for \<open>XEMethod\<close> the dictionary of responses
  by ticker that its own \<open>make_request\<close> collected.
\<close>

datatype raw_response = Single response | ByTicker "(string \<times> response) list"

definition prepare_data :: "env \<Rightarrow> adapter \<Rightarrow> raw_response \<Rightarrow> world \<Rightarrow> (res_dict \<times> pyval) result" where
  "prepare_data e self raw w =
     (case kind self of
        CBRFMethod \<Rightarrow> (case raw of Single r \<Rightarrow> cbrf_prepare_data self r w | _ \<Rightarrow> (Inl AttributeError, w))
      | ECBMethod \<Rightarrow> (case raw of Single r \<Rightarrow> ecb_prepare_data e self r w | _ \<Rightarrow> (Inl AttributeError, w))
      | BinanceMethod \<Rightarrow> (case raw of Single r \<Rightarrow> binance_prepare_data e self r w | _ \<Rightarrow> (Inl AttributeError, w))
      | GarantexMethod \<Rightarrow> (case raw of Single r \<Rightarrow> garantex_prepare_data e self r w | _ \<Rightarrow> (Inl AttributeError, w))
      | XEMethod \<Rightarrow> (case raw of ByTicker rs \<Rightarrow> xe_prepare_data e self rs w | _ \<Rightarrow> (Inl AttributeError, w)))"

definition handle_response :: "env \<Rightarrow> adapter \<Rightarrow> raw_response \<Rightarrow> world \<Rightarrow> rate_dict list result" where
  "handle_response e self raw w =
     and_then (prepare_data e self raw w) (\<lambda>prepared w. (Inr (resolve_tickers self prepared), w))"

definition xe_make_request :: "env \<Rightarrow> adapter \<Rightarrow> world \<Rightarrow> rate_dict list result" where
  "xe_make_request e self w =
     (let rw = xe_prepare_request e self w
      in and_then
           (for_each (\<lambda>req pre_response w.
                        and_then (request e (req_method req) (req_url req) w)
                          (\<lambda>raw_response w.
                             case raise_for_status raw_response of
                               Inl x \<Rightarrow> (Inl x, w)
                             | Inr u \<Rightarrow> (Inr (AList.update (req_ticker req) raw_response pre_response), w)))
              (dict_values (fst rw)) [] (snd rw))
           (\<lambda>pre_response w. handle_response e self (ByTicker pre_response) w))"

definition make_request :: "env \<Rightarrow> adapter \<Rightarrow> world \<Rightarrow> rate_dict list result" where
  "make_request e self w =
     (case kind self of
        XEMethod \<Rightarrow> xe_make_request e self w
      | _ \<Rightarrow>
          and_then (request e (req_type self) (url self) w)
            (\<lambda>raw_response w.
               case raise_for_status raw_response of
                 Inl x \<Rightarrow> (Inl x, w)
               | Inr u \<Rightarrow> handle_response e self (Single raw_response) w))"

section \<open>The fetch cycle (\<open>tasks.py\<close>)\<close>

definition METHODS :: "(string \<times> adapter_kind) list" where
  "METHODS =
     [(''cbrf_method'', CBRFMethod),
      (''ecb_method'', ECBMethod),
      (''binance_method'', BinanceMethod),
      (''garantex_method'', GarantexMethod),
      (''xe_method'', XEMethod)]"

text \<open>
  The query \<open>CurrencyRate.objects.filter(...).first()\<close> of \<open>create_rate\<close>, as a truth
  value: is there a stored row with this key?
\<close>

definition rate_exists :: "currency_rate list \<Rightarrow> int \<Rightarrow> rate_dict \<Rightarrow> timestamp \<Rightarrow> decimal \<Rightarrow> bool" where
  "rate_exists rows rate_type_id new_rate valid_from dec =
     (find (\<lambda>row. row_rate_type_id row = rate_type_id
                \<and> row_currency_from row = currency_from new_rate
                \<and> row_currency_to row = currency_to new_rate
                \<and> row_rate_date row = valid_from
                \<and> row_rate row = dec
                \<and> row_nominal row = nominal new_rate) rows \<noteq> None)"

text \<open>
  \<open>CurrencyRate(**new_rate).save()\<close>: the overridden \<open>save\<close> of \<open>models.py\<close> sets
  \<open>rate_date\<close> to the current time before the row is written.
\<close>

definition save_currency_rate :: "env \<Rightarrow> int \<Rightarrow> rate_dict \<Rightarrow> decimal \<Rightarrow> world \<Rightarrow> world" where
  "save_currency_rate e rate_type_id new_rate dec w =
     (let tw = now e w
      in (snd tw)\<lparr> currency_rates := currency_rates (snd tw) @
                     [\<lparr> row_rate_type_id = rate_type_id,
                        row_currency_from = currency_from new_rate,
                        row_currency_to = currency_to new_rate,
                        row_rate = dec,
                        row_rate_date = fst tw,
                        row_nominal = nominal new_rate \<rparr>] \<rparr>)"

definition Decimal :: "env \<Rightarrow> pyval \<Rightarrow> exception + decimal" where
  "Decimal e v =
     (case v of
        PStr s \<Rightarrow> (case decimal_of_str e s of None \<Rightarrow> Inl InvalidOperation | Some d \<Rightarrow> Inr d)
      | PInt n \<Rightarrow> Inr (decimal_of_int e n)
      | PNone \<Rightarrow> Inl TypeError)"

definition duplicate_error :: error_dict where
  "duplicate_error = \<lparr> code = ''429 '', description = ''Duplicate'' \<rparr>"

fun create_rate :: "env \<Rightarrow> int \<Rightarrow> rate_dict list \<Rightarrow> world \<Rightarrow> rate_dict list result" where
  "create_rate e rate_type_id [] w = (Inr [], w)"
| "create_rate e rate_type_id (rate_item # rest) w =
     (if error rate_item = None
      then (case rate_date rate_item of
              PStr s \<Rightarrow>
                (case strptime_dmy e s of
                   None \<Rightarrow> (Inl ValueError, w)
                 | Some valid_from \<Rightarrow>
                     (case Decimal e (py_or (rate rate_item) (PStr ''0'')) of
                        Inl x \<Rightarrow> (Inl x, w)
                      | Inr dec \<Rightarrow>
                          if \<not> rate_exists (currency_rates w) rate_type_id rate_item valid_from dec
                          then (if scale rate_item \<noteq> None then (Inl TypeError, w)
                                else and_then
                                       (create_rate e rate_type_id rest
                                          (save_currency_rate e rate_type_id rate_item dec w))
                                       (\<lambda>summary w. (Inr (rate_item # summary), w)))
                          else and_then (create_rate e rate_type_id rest w)
                                 (\<lambda>summary w. (Inr (rate_item\<lparr>error := Some duplicate_error\<rparr> # summary), w))))
            | _ \<Rightarrow> (Inl TypeError, w))
      else and_then (create_rate e rate_type_id rest w) (\<lambda>summary w. (Inr (rate_item # summary), w)))"

text \<open>\<open>CurrencyRateType.save\<close>: upper-cases a non-empty base currency and writes the row.\<close>

definition save_rate_type :: "currency_rate_type \<Rightarrow> world \<Rightarrow> world" where
  "save_rate_type rate_type w =
     (let saved = rate_type\<lparr>type_base_currency :=
                    (case type_base_currency rate_type of
                       Some b \<Rightarrow> if b \<noteq> [] then Some (py_upper b) else Some b
                     | None \<Rightarrow> None)\<rparr>
      in w\<lparr>currency_rate_types :=
             map (\<lambda>row. if pk row = pk saved then saved else row) (currency_rate_types w)\<rparr>)"

text \<open>
  The handler \<open>except RequestException as exc\<close>: any other exception leaves the task.
  \<open>exc.response.status_code\<close> needs a response object behind the attribute.
\<close>

definition except_RequestException :: "exception \<Rightarrow> exception + last_result" where
  "except_RequestException exc =
     (case exc of
        RequestException (ResponseAttr (Some (status, rsn))) \<Rightarrow> Inr (StatusList [[(status, rsn)]])
      | RequestException (ResponseAttr None) \<Rightarrow> Inl AttributeError
      | RequestException NoResponseAttr \<Rightarrow> Inr (StatusList [[(500, ''ConnectionError'')]])
      | _ \<Rightarrow> Inl exc)"

text \<open>
  One run of the task. The result is the exception that left the task, if any, and the
  world after the run.
\<close>

definition run_currency_rate_checker :: "env \<Rightarrow> int \<Rightarrow> world \<Rightarrow> exception option \<times> world" where
  "run_currency_rate_checker e rate_type_id w0 =
     (let tw = now e w0; task_time = fst tw; w = snd tw
      in case find (\<lambda>row. pk row = rate_type_id) (currency_rate_types w) of
           None \<Rightarrow> (None, w)
         | Some found \<Rightarrow>
             (let rate_type = found\<lparr>autoload_lastrun := Some task_time\<rparr>;
                  tried =
                    (case map_of METHODS (autoload_method rate_type) of
                       None \<Rightarrow> (Inl TypeError, w)
                     | Some k \<Rightarrow>
                         (let method = init k (type_base_currency rate_type) (type_tickers rate_type)
                          in case validate_tickers method of
                               Inl x \<Rightarrow> (Inl x, w)
                             | Inr u \<Rightarrow> make_request e method w))
              in case tried of
                   (Inl exc, w1) \<Rightarrow>
                     (case except_RequestException exc of
                        Inl x \<Rightarrow> (Some x, w1)
                      | Inr summary \<Rightarrow>
                          (None, save_rate_type (rate_type\<lparr>autoload_lastresult := summary\<rparr>) w1))
                 | (Inr response, w1) \<Rightarrow>
                     (case create_rate e rate_type_id response w1 of
                        (Inl x, w2) \<Rightarrow> (Some x, w2)
                      | (Inr summary, w2) \<Rightarrow>
                          (None, save_rate_type (rate_type\<lparr>autoload_lastresult := RateList summary\<rparr>) w2))))"

section \<open>The specification's own words\<close>

text \<open>
  The ticker parser as the specification describes it, written independently of the
  Python string methods: remove every \<open>/\<close>, strip trailing commas, split on commas,
  trim and upper-case each token.
\<close>

definition remove_slashes :: "string \<Rightarrow> string" where
  "remove_slashes s = filter (\<lambda>c. c \<noteq> CHR ''/'') s"

fun strip_trailing_commas :: "string \<Rightarrow> string" where
  "strip_trailing_commas [] = []"
| "strip_trailing_commas (c # cs) =
     (if c = CHR '','' \<and> strip_trailing_commas cs = [] then [] else c # strip_trailing_commas cs)"

function split_on_commas :: "string \<Rightarrow> string list" where
  "split_on_commas s =
     (case dropWhile (\<lambda>c. c \<noteq> CHR '','') s of
        [] \<Rightarrow> [s]
      | comma # rest \<Rightarrow> takeWhile (\<lambda>c. c \<noteq> CHR '','') s # split_on_commas rest)"
  by pat_completeness auto
termination
proof (relation "measure length")
  show "wf (measure length)" by simp
next
  fix s :: string and comma rest
  assume "dropWhile (\<lambda>c. c \<noteq> CHR '','') s = comma # rest"
  moreover have "length (dropWhile (\<lambda>c. c \<noteq> CHR '','') s) \<le> length s"
    by (rule length_dropWhile_le)
  ultimately show "(rest, s) \<in> measure length" by simp
qed

declare split_on_commas.simps [simp del]

definition parse_ticker_spec :: "string \<Rightarrow> string list" where
  "parse_ticker_spec s =
     map (\<lambda>token. py_upper (py_strip token)) (split_on_commas (strip_trailing_commas (remove_slashes s)))"

text \<open>
  The record invariant as the specification states it: a real record carries \<open>rate\<close>
  and \<open>nominal\<close> and no \<open>error\<close>; an error placeholder has \<open>rate\<close> equal to the
  string \<open>"0"\<close>, \<open>nominal\<close> equal to 0 and an \<open>error\<close>.
\<close>

definition record_invariant :: "rate_dict \<Rightarrow> bool" where
  "record_invariant r =
     ((nominal r \<noteq> None \<and> error r = None)
      \<or> (rate r = PStr ''0'' \<and> nominal r = Some (PInt 0) \<and> error r \<noteq> None))"

text \<open>
  The shape of the records that the code produces: the placeholder carries its zero under the key
  \<open>scale\<close> and has no \<open>nominal\<close>; a real record has no \<open>scale\<close>.
\<close>

definition real_record :: "rate_dict \<Rightarrow> bool" where
  "real_record r = (nominal r \<noteq> None \<and> scale r = None \<and> error r = None)"

definition record_invariant_of_code :: "rate_dict \<Rightarrow> bool" where
  "record_invariant_of_code r =
     ((nominal r \<noteq> None \<and> scale r = None \<and> error r = None)
      \<or> (rate r = PStr ''0'' \<and> scale r = Some (PInt 0) \<and> nominal r = None \<and> error r \<noteq> None))"

text \<open>A provider dictionary as the adapters build it: distinct keys, real records.\<close>

definition well_formed :: "res_dict \<Rightarrow> bool" where
  "well_formed d = (distinct (map fst d) \<and> (\<forall>r \<in> set (dict_values d). real_record r))"

text \<open>
  The length rule of each adapter as the specification states it: exactly 3 characters
  for the two XML feeds, at least 2 for the exchange and the marketplace, at least 3 for
  the scraped table.
\<close>

definition breaks_length_rule :: "adapter_kind \<Rightarrow> string \<Rightarrow> bool" where
  "breaks_length_rule k t =
     (case k of
        CBRFMethod \<Rightarrow> length t \<noteq> 3
      | ECBMethod \<Rightarrow> length t \<noteq> 3
      | BinanceMethod \<Rightarrow> \<not> 2 \<le> length t
      | GarantexMethod \<Rightarrow> \<not> 2 \<le> length t
      | XEMethod \<Rightarrow> \<not> 3 \<le> length t)"

section \<open>Example data\<close>

definition usd_eur :: rate_dict where
  "usd_eur = \<lparr> rate_date = PStr ''08.06.2023'', currency_from = PStr ''USD'', currency_to = PStr ''EUR'',
               rate = PStr ''0.93'', nominal = Some (PInt 1), scale = None, error = None \<rparr>"

definition usd_gbp :: rate_dict where
  "usd_gbp = \<lparr> rate_date = PStr ''08.06.2023'', currency_from = PStr ''USD'', currency_to = PStr ''GBP'',
               rate = PStr ''0.80'', nominal = Some (PInt 1), scale = None, error = None \<rparr>"

definition rub_eur :: rate_dict where
  "rub_eur = \<lparr> rate_date = PStr ''08.06.2023'', currency_from = PStr ''RUB'', currency_to = PStr ''EUR'',
               rate = PStr ''0.011'', nominal = Some (PInt 1), scale = None, error = None \<rparr>"

definition pair_dict :: res_dict where
  "pair_dict = [(PStr ''USDEUR'', usd_eur), (PStr ''USDGBP'', usd_gbp), (PStr ''RUBEUR'', rub_eur)]"

definition btc_usdt :: rate_dict where
  "btc_usdt = \<lparr> rate_date = PStr ''08.06.2023'', currency_from = PStr ''BTC'', currency_to = PStr ''USDT'',
                rate = PStr ''26500.10'', nominal = Some (PInt 1), scale = None, error = None \<rparr>"

definition cbrf_body :: val_curs where
  "cbrf_body =
     \<lparr> at_Date = Some ''08.06.2023'',
       Valute = Children
         [\<lparr> CharCode = Some ''USD'', Value = Some ''90,50'', Nominal = Some (PStr ''1'') \<rparr>,
          \<lparr> CharCode = Some ''EUR'', Value = Some ''100,00'', Nominal = Some (PStr ''1'') \<rparr>] \<rparr>"

definition cbrf_response :: response where
  "cbrf_response = \<lparr> status_code = 200, reason = ''OK'', content = ValCursXml (Some cbrf_body) \<rparr>"

definition usd_rub :: rate_dict where
  "usd_rub = \<lparr> rate_date = PStr ''08.06.2023'', currency_from = PStr ''USD'', currency_to = PStr ''RUB'',
               rate = PStr ''90.50'', nominal = Some (PStr ''1''), scale = None, error = None \<rparr>"

definition zzz_not_found :: rate_dict where
  "zzz_not_found = \<lparr> rate_date = PStr ''08.06.2023'', currency_from = PStr ''ZZZ'', currency_to = PStr ''RUB'',
               rate = PStr ''0'', nominal = None, scale = Some (PInt 0),
               error = Some \<lparr> code = ''404'', description = ''Currency not found'' \<rparr> \<rparr>"

definition offline_env :: env where
  "offline_env =
     \<lparr> net = (\<lambda>n m u. Inl (ResponseAttr None)),
       clock = (\<lambda>n. 1686300000000000 + int n),
       hour = (\<lambda>t. 8),
       strftime_dmy = (\<lambda>t. ''09.06.2023''),
       strftime_ymd = (\<lambda>t. ''2023-06-08''),
       ymd_to_dmy = (\<lambda>s. if s = ''2023-06-08'' then Some ''08.06.2023'' else None),
       strptime_dmy = (\<lambda>s. if s = ''08.06.2023'' then Some 1686182400000000 else None),
       decimal_of_str = (\<lambda>s. if s = ''90.50'' then Some 905000000000 else None),
       decimal_of_int = (\<lambda>n. n * 10000000000) \<rparr>"

definition empty_world :: world where
  "empty_world = \<lparr> requests = [], ticks = 0, currency_rate_types = [], currency_rates = [] \<rparr>"

definition cbrf_type :: currency_rate_type where
  "cbrf_type =
     \<lparr> pk = 1, name = ''CBRF'', autoload_method = ''cbrf_method'', type_base_currency = None,
       active = True, interval_value = 1, type_tickers = ''USD'',
       autoload_lastrun = None, autoload_lastresult = DefaultResult \<rparr>"

definition cbrf_world :: world where
  "cbrf_world = empty_world\<lparr>currency_rate_types := [cbrf_type]\<rparr>"

definition cbrf_env :: env where
  "cbrf_env = offline_env\<lparr>net := (\<lambda>n m u. Inr cbrf_response)\<rparr>"

definition garantex_env :: env where
  "garantex_env =
     offline_env\<lparr>net := (\<lambda>n m u.
        if n = 0
        then Inr \<lparr> status_code = 200, reason = ''OK'',
                   content = MarketsJson [\<lparr> market_id = ''btcrub'', ask_unit = ''btc'', bid_unit = ''rub'' \<rparr>] \<rparr>
        else Inr \<lparr> status_code = 200, reason = ''OK'', content = TradesJson [] \<rparr>)\<rparr>"

definition unavailable_env :: env where
  "unavailable_env =
     offline_env\<lparr>net := (\<lambda>n m u.
        Inr \<lparr> status_code = 503, reason = ''Service Unavailable'', content = ValCursXml None \<rparr>)\<rparr>"

definition first_row :: currency_rate where
  "first_row = \<lparr> row_rate_type_id = 1, row_currency_from = PStr ''USD'', row_currency_to = PStr ''RUB'',
                 row_rate = 905000000000, row_rate_date = 1686300000000001,
                 row_nominal = Some (PStr ''1'') \<rparr>"

definition second_row :: currency_rate where
  "second_row = first_row\<lparr>row_rate_date := 1686300000000003\<rparr>"

definition after_first_run :: world where
  "after_first_run =
     \<lparr> requests = [(''GET'', ''https://www.cbr.ru/scripts/XML_daily.asp'')],
       ticks = 2,
       currency_rate_types =
         [cbrf_type\<lparr>autoload_lastrun := Some 1686300000000000, autoload_lastresult := RateList [usd_rub]\<rparr>],
       currency_rates = [first_row] \<rparr>"

definition after_second_run :: world where
  "after_second_run =
     \<lparr> requests = [(''GET'', ''https://www.cbr.ru/scripts/XML_daily.asp''),
                   (''GET'', ''https://www.cbr.ru/scripts/XML_daily.asp'')],
       ticks = 4,
       currency_rate_types =
         [cbrf_type\<lparr>autoload_lastrun := Some 1686300000000002, autoload_lastresult := RateList [usd_rub]\<rparr>],
       currency_rates = [first_row, second_row] \<rparr>"

section \<open>The ticker parser\<close>

lemma prepare_tickers_empty: "tickers self = [] \<Longrightarrow> prepare_tickers self = []"
  by (simp add: prepare_tickers_def)

lemma py_replace_delete: "py_replace c [] s = filter (\<lambda>x. x \<noteq> c) s"
  by (induction s) (simp_all add: py_replace_def)

lemma py_rstrip_Cons:
  "py_rstrip ch (c # cs) = (if c = ch \<and> py_rstrip ch cs = [] then [] else c # py_rstrip ch cs)"
  by (auto simp: py_rstrip_def dropWhile_append dropWhile_eq_Nil_conv)

lemma py_rstrip_commas: "py_rstrip (CHR '','') s = strip_trailing_commas s"
  by (induction s) (simp_all add: py_rstrip_Cons, simp add: py_rstrip_def)

lemma split_on_commas_Nil: "split_on_commas [] = [[]]"
  by (simp add: split_on_commas.simps)

lemma split_on_commas_Cons:
  "split_on_commas (c # cs) =
     (if c = CHR '','' then [] # split_on_commas cs
      else (case split_on_commas cs of [] \<Rightarrow> [[c]] | t # ts \<Rightarrow> (c # t) # ts))"
proof -
  have whole: "split_on_commas (c # cs) =
      (case dropWhile (\<lambda>c. c \<noteq> CHR '','') (c # cs) of
         [] \<Rightarrow> [c # cs]
       | comma # rest \<Rightarrow> takeWhile (\<lambda>c. c \<noteq> CHR '','') (c # cs) # split_on_commas rest)"
    by (rule split_on_commas.simps)
  have tail: "split_on_commas cs =
      (case dropWhile (\<lambda>c. c \<noteq> CHR '','') cs of
         [] \<Rightarrow> [cs]
       | comma # rest \<Rightarrow> takeWhile (\<lambda>c. c \<noteq> CHR '','') cs # split_on_commas rest)"
    by (rule split_on_commas.simps)
  show ?thesis
  proof (cases "c = CHR '',''")
    case True
    with whole show ?thesis by simp
  next
    case False
    show ?thesis
    proof (cases "dropWhile (\<lambda>c. c \<noteq> CHR '','') cs")
      case Nil
      with False whole tail show ?thesis by simp
    next
      case (Cons comma rest)
      with False whole tail show ?thesis by simp
    qed
  qed
qed

lemma py_split_commas: "py_split (CHR '','') s = split_on_commas s"
  by (induction s) (simp_all add: split_on_commas_Nil split_on_commas_Cons)

text \<open>
  Claim C7, as amended. For every raw ticker string that is not empty,
  \<open>prepare_tickers\<close> returns the tokens obtained by removing every \<open>/\<close>, stripping
  trailing commas, splitting on commas, then trimming and upper-casing each token, in
  order; for the empty string it returns the empty list. (A string of white space only
  is not empty: it yields the single empty token.)
\<close>

theorem prepare_tickers_parses_ticker_spec:
  "prepare_tickers self = (if tickers self = [] then [] else parse_ticker_spec (tickers self))"
  by (simp add: prepare_tickers_def parse_ticker_spec_def remove_slashes_def
      py_replace_delete py_rstrip_commas py_split_commas)

text \<open>
  Witness for C7: a string with a slash, white space around a token and a trailing comma.
\<close>

theorem prepare_tickers_parses_ticker_spec_witness:
  "prepare_tickers (init BinanceMethod None ''usd/rub, eur*,'') = [''USDRUB'', ''EUR*'']
   \<and> parse_ticker_spec ''usd/rub, eur*,'' = [''USDRUB'', ''EUR*'']"
proof -
  have run: "prepare_tickers (init BinanceMethod None ''usd/rub, eur*,'') = [''USDRUB'', ''EUR*'']"
    by (simp add: prepare_tickers_def init_def py_replace_def py_rstrip_def py_strip_def py_isspace_def
        py_upper_def upper_char_def ascii_lowercase_def ascii_uppercase_def)
  have "tickers (init BinanceMethod None ''usd/rub, eur*,'') = ''usd/rub, eur*,''"
    by (simp add: init_def)
  with run prepare_tickers_parses_ticker_spec [of "init BinanceMethod None ''usd/rub, eur*,''"]
  show ?thesis by simp
qed

text \<open>
  Claim C7 as stated fails on a string of white space only: the guard of
  \<open>prepare_tickers\<close> tests the raw string, which is not empty, and the result is the
  list with one empty token, not the empty list.
\<close>

theorem prepare_tickers_whitespace_counterexample:
  "prepare_tickers (init BinanceMethod None '' '') = [[]]
   \<and> prepare_tickers (init BinanceMethod None '' '') \<noteq> []"
  by (simp add: prepare_tickers_def init_def py_replace_def py_rstrip_def py_strip_def py_isspace_def
      py_upper_def upper_char_def ascii_lowercase_def ascii_uppercase_def)

section \<open>The provider dictionaries of the adapters\<close>

lemma set_update_subset: "set (AList.update k v d) \<subseteq> insert (k, v) (set d)"
  by (induction d) auto

lemma well_formed_Nil: "well_formed []"
  by (simp add: well_formed_def dict_values_def)

lemma well_formed_update:
  assumes "well_formed d" and "real_record v"
  shows "well_formed (AList.update k v d)"
proof -
  have "distinct (map fst (AList.update k v d))"
    using assms(1) by (simp add: well_formed_def distinct_update)
  moreover have "\<forall>r \<in> set (dict_values (AList.update k v d)). real_record r"
    using assms set_update_subset [of k v d]
    by (fastforce simp: well_formed_def dict_values_def)
  ultimately show ?thesis by (simp add: well_formed_def)
qed

lemma and_then_Inr:
  "and_then r f = (Inr y, w') \<Longrightarrow> \<exists>x w. r = (Inr x, w) \<and> f x w = (Inr y, w')"
  by (cases r) (auto simp: and_then_def split: sum.splits)

lemma for_each_invariant:
  assumes step: "\<And>x s w s' w'. P s \<Longrightarrow> body x s w = (Inr s', w') \<Longrightarrow> P s'"
  shows "P s \<Longrightarrow> for_each body xs s w = (Inr s', w') \<Longrightarrow> P s'"
proof (induction xs arbitrary: s w)
  case Nil
  then show ?case by simp
next
  case (Cons x xs)
  from Cons.prems(2) obtain s1 w1 where
    first: "body x s w = (Inr s1, w1)" and later: "for_each body xs s1 w1 = (Inr s', w')"
    by (auto dest: and_then_Inr)
  from step [OF Cons.prems(1) first] have "P s1" .
  from Cons.IH [OF this later] show ?case .
qed

lemma cbrf_update_well_formed:
  "well_formed d \<Longrightarrow> cbrf_update self date val_dict d = Inr d' \<Longrightarrow> well_formed d'"
  by (auto simp: cbrf_update_def real_record_def split: option.splits intro!: well_formed_update)

lemma ecb_update_well_formed: "well_formed d \<Longrightarrow> well_formed (ecb_update self date val_dict d)"
  by (auto simp: ecb_update_def real_record_def intro!: well_formed_update)

lemma cbrf_prepare_data_well_formed:
  assumes "cbrf_prepare_data self resp w = (Inr (d, date), w')"
  shows "well_formed d"
proof -
  from assms obtain dt vals d0 w0 where
    loop: "for_each (\<lambda>val_dict res_dict w. (cbrf_update self dt val_dict res_dict, w)) vals [] w
           = (Inr d0, w0)" and "d = d0"
    by (auto simp: cbrf_prepare_data_def Let_def split: content.splits option.splits sum.splits
        dest!: and_then_Inr)
  have "well_formed d0"
    by (rule for_each_invariant [where P = well_formed, OF _ well_formed_Nil loop])
       (auto dest: cbrf_update_well_formed)
  with \<open>d = d0\<close> show ?thesis by simp
qed

lemma ecb_prepare_data_well_formed:
  assumes "ecb_prepare_data e self resp w = (Inr (d, date), w')"
  shows "well_formed d"
proof -
  from assms obtain dt vals d0 w0 where
    loop: "for_each (\<lambda>val_dict res_dict w. (Inr (ecb_update self (PStr dt) val_dict res_dict), w)) vals [] w
           = (Inr d0, w0)" and "d = d0"
    by (auto simp: ecb_prepare_data_def Let_def split: content.splits option.splits sum.splits
        dest!: and_then_Inr)
  have "well_formed d0"
    by (rule for_each_invariant [where P = well_formed, OF _ well_formed_Nil loop])
       (auto intro: ecb_update_well_formed)
  with \<open>d = d0\<close> show ?thesis by simp
qed

lemma binance_make_dct_well_formed:
  "well_formed d \<Longrightarrow> binance_make_dct e self date base quote d w = (Inr d', w') \<Longrightarrow> well_formed d'"
  by (auto simp: binance_make_dct_def real_record_def dest!: and_then_Inr intro!: well_formed_update)

lemma binance_for_tick_well_formed:
  assumes "well_formed d" and "binance_for_tick e self date raw_dict tick d w = (Inr d', w')"
  shows "well_formed d'"
proof -
  have loop: "\<And>p. for_each (\<lambda>coin res_dict w.
                  if p coin then binance_make_dct e self date (baseAsset coin) (quoteAsset coin) res_dict w
                  else (Inr res_dict, w)) raw_dict d w = (Inr d', w') \<Longrightarrow> well_formed d'"
    by (erule for_each_invariant [where P = well_formed, rotated 2])
       (auto split: if_splits dest: binance_make_dct_well_formed simp: assms(1))
  from assms show ?thesis
    by (auto simp: binance_for_tick_def split: if_splits option.splits
        dest: loop binance_make_dct_well_formed)
qed

lemma binance_prepare_data_well_formed:
  assumes "binance_prepare_data e self resp w = (Inr (d, date), w')"
  shows "well_formed d"
proof -
  from assms obtain dt raw_dict w1 d0 w0 where
    loop: "for_each (binance_for_tick e self dt raw_dict) (prepare_tickers self) [] w1 = (Inr d0, w0)"
    and "d = d0"
    by (auto simp: binance_prepare_data_def Let_def split: content.splits dest!: and_then_Inr)
  have "well_formed d0"
    by (rule for_each_invariant [where P = well_formed, OF _ well_formed_Nil loop])
       (rule binance_for_tick_well_formed)
  with \<open>d = d0\<close> show ?thesis by simp
qed


lemma garantex_make_dct_well_formed:
  "well_formed d \<Longrightarrow> garantex_make_dct e self date base quote d w = (Inr d', w') \<Longrightarrow> well_formed d'"
  by (auto simp: garantex_make_dct_def real_record_def dest!: and_then_Inr intro!: well_formed_update)

lemma garantex_for_tick_well_formed:
  assumes "well_formed d" and "garantex_for_tick e self date raw_dict tick d w = (Inr d', w')"
  shows "well_formed d'"
proof -
  have loop: "\<And>p. for_each (\<lambda>coin res_dict w.
                  if p coin
                  then garantex_make_dct e self date (py_upper (ask_unit coin)) (py_upper (bid_unit coin)) res_dict w
                  else (Inr res_dict, w)) raw_dict d w = (Inr d', w') \<Longrightarrow> well_formed d'"
    by (erule for_each_invariant [where P = well_formed, rotated 2])
       (auto split: if_splits dest: garantex_make_dct_well_formed simp: assms(1))
  from assms show ?thesis
    by (auto simp: garantex_for_tick_def Let_def split: if_splits option.splits
        dest: loop garantex_make_dct_well_formed)
qed

lemma garantex_prepare_data_well_formed:
  assumes "garantex_prepare_data e self resp w = (Inr (d, date), w')"
  shows "well_formed d"
proof -
  from assms obtain dt raw_dict w1 d0 w0 where
    loop: "for_each (garantex_for_tick e self dt raw_dict) (prepare_tickers self) [] w1 = (Inr d0, w0)"
    and "d = d0"
    by (auto simp: garantex_prepare_data_def Let_def split: content.splits dest!: and_then_Inr)
  have "well_formed d0"
    by (rule for_each_invariant [where P = well_formed, OF _ well_formed_Nil loop])
       (rule garantex_for_tick_well_formed)
  with \<open>d = d0\<close> show ?thesis by simp
qed

lemma xe_row_well_formed:
  "well_formed d \<Longrightarrow> xe_row date ticker soup i d = Inr d' \<Longrightarrow> well_formed d'"
  by (auto simp: xe_row_def real_record_def split: sum.splits intro!: well_formed_update)

lemma xe_prepare_data_well_formed:
  assumes "xe_prepare_data e self responses w = (Inr (d, date), w')"
  shows "well_formed d"
proof -
  from assms obtain dt w1 d0 w0 where
    loop: "for_each (\<lambda>item res_dict w.
                        case content (snd item) of
                          CurrencyTableHtml (Some soup) \<Rightarrow>
                            for_each (\<lambda>i res_dict w. (xe_row dt (fst item) soup i res_dict, w))
                              [0 ..< length (stride4 soup)] res_dict w
                        | _ \<Rightarrow> (Inl AttributeError, w))
              responses [] w1 = (Inr d0, w0)"
    and "d = d0"
    by (auto simp: xe_prepare_data_def Let_def dest!: and_then_Inr)
  have inner: "\<And>item soup s w s' w'. well_formed s \<Longrightarrow>
      for_each (\<lambda>i res_dict w. (xe_row dt (fst item) soup i res_dict, w)) [0 ..< length (stride4 soup)] s w
        = (Inr s', w') \<Longrightarrow> well_formed s'"
    by (erule for_each_invariant [where P = well_formed, rotated]) (auto dest: xe_row_well_formed)
  have "well_formed d0"
    by (rule for_each_invariant [where P = well_formed, OF _ well_formed_Nil loop])
       (auto split: content.splits option.splits dest: inner)
  with \<open>d = d0\<close> show ?thesis by simp
qed

lemma prepare_data_well_formed:
  assumes "prepare_data e self raw w = (Inr (d, date), w')"
  shows "well_formed d"
  using assms
  by (auto simp: prepare_data_def split: adapter_kind.splits raw_response.splits
      dest: cbrf_prepare_data_well_formed ecb_prepare_data_well_formed binance_prepare_data_well_formed
        garantex_prepare_data_well_formed xe_prepare_data_well_formed)

section \<open>The wildcard resolver\<close>

lemma for_currency_append:
  "for_currency self d date acc ts = acc @ concat (map (\<lambda>t. for_currency self d date [] [t]) ts)"
  by (induction ts arbitrary: acc) (simp, subst for_currency.simps, simp)

lemma dict_get_present: "distinct (map fst d) \<Longrightarrow> (k, v) \<in> set d \<Longrightarrow> dict_get d k dflt = v"
  by (simp add: dict_get_def)

lemma list_appender_filter:
  assumes "distinct (map fst d)"
  shows "list_appender self d date currency opt =
         filter (\<lambda>r. currency_of opt r = PStr (py_replace (CHR ''*'') [] currency)) (dict_values d)"
proof -
  have "map (\<lambda>res. dict_get d res dflt) (map fst (filter (\<lambda>(key, v). p v) d))
        = filter p (map snd d)" for p and dflt :: rate_dict
    using assms
  proof (induction d)
    case Nil
    show ?case by simp
  next
    case (Cons kv d)
    obtain k v where kv: "kv = (k, v)" by (cases kv)
    have keep: "map (\<lambda>res. dict_get ((k, v) # d) res dflt) (map fst (filter (\<lambda>(key, v). p v) d))
                = map (\<lambda>res. dict_get d res dflt) (map fst (filter (\<lambda>(key, v). p v) d))"
      using Cons.prems kv by (auto simp: dict_get_def image_iff)
    from Cons kv keep show ?case by (auto simp: dict_get_def)
  qed
  then show ?thesis
    by (simp add: list_appender_def find_key_def dict_values_def Let_def)
qed

lemma py_replace_absent: "c \<notin> set s \<Longrightarrow> py_replace c [] s = s"
  by (induction s) (auto simp: py_replace_def)

lemma star_to:
  assumes "distinct (map fst d)" and "CHR ''*'' \<notin> set xxx"
  shows "for_currency self d date [] [CHR ''*'' # xxx] = filter (\<lambda>r. currency_to r = PStr xxx) (dict_values d)"
proof -
  have "py_replace (CHR ''*'') [] (CHR ''*'' # xxx) = xxx"
    using assms(2) py_replace_absent [of "CHR ''*''" xxx] by (simp add: py_replace_def)
  then show ?thesis
    by (simp add: list_appender_filter [OF assms(1)] currency_of_def)
qed

lemma star_from:
  assumes "distinct (map fst d)" and "CHR ''*'' \<notin> set xxx" and "xxx \<noteq> []"
  shows "for_currency self d date [] [xxx @ ''*''] = filter (\<lambda>r. currency_from r = PStr xxx) (dict_values d)"
proof -
  have rep: "py_replace (CHR ''*'') [] (xxx @ ''*'') = xxx"
    using assms(2) py_replace_absent [of "CHR ''*''" xxx] by (simp add: py_replace_def)
  have "hd (xxx @ ''*'') \<noteq> CHR ''*''"
    using assms(2,3) by (cases xxx) auto
  with rep show ?thesis
    by (simp add: list_appender_filter [OF assms(1)] currency_of_def)
qed

lemma upper_char_idem: "upper_char (upper_char c) = upper_char c"
  by (simp add: upper_char_def ascii_lowercase_def ascii_uppercase_def)

lemma py_upper_idem: "py_upper (py_upper s) = py_upper s"
  by (simp add: py_upper_def upper_char_idem)

lemma prepare_tickers_upper: "t \<in> set (prepare_tickers self) \<Longrightarrow> py_upper t = t"
  by (auto simp: prepare_tickers_def py_upper_idem split: if_splits)

text \<open>
  Claim C3. For every parsed ticker list and every provider dictionary (distinct keys, as
  in any Python dictionary): with no tickers the result is all the values of the
  dictionary in its insertion order; otherwise the result is the concatenation, in ticker
  order, of what each token selects; a token \<open>*XXX\<close> selects exactly the records whose
  \<open>currency_to\<close> equals \<open>XXX\<close>, and a token \<open>XXX*\<close> exactly those whose
  \<open>currency_from\<close> equals \<open>XXX\<close>, both in dictionary order (a filter of the values,
  with no sort); the star is removed before the comparison, the comparison is equality of
  strings, and every parsed token is already upper-case.
\<close>

theorem wildcard_resolver:
  assumes "distinct (map fst res_dict)"
  shows "(prepare_tickers self = [] \<longrightarrow> resolve_tickers self (res_dict, date) = dict_values res_dict)
       \<and> (prepare_tickers self \<noteq> [] \<longrightarrow>
            resolve_tickers self (res_dict, date)
              = concat (map (\<lambda>t. for_currency self res_dict date [] [t]) (prepare_tickers self)))
       \<and> (\<forall>xxx. CHR ''*'' \<notin> set xxx \<longrightarrow>
            for_currency self res_dict date [] [CHR ''*'' # xxx]
              = filter (\<lambda>r. currency_to r = PStr xxx) (dict_values res_dict))
       \<and> (\<forall>xxx. CHR ''*'' \<notin> set xxx \<and> xxx \<noteq> [] \<longrightarrow>
            for_currency self res_dict date [] [xxx @ ''*'']
              = filter (\<lambda>r. currency_from r = PStr xxx) (dict_values res_dict))
       \<and> (\<forall>t \<in> set (prepare_tickers self). py_upper t = t)"
proof (intro conjI allI impI ballI)
  assume "prepare_tickers self = []"
  then show "resolve_tickers self (res_dict, date) = dict_values res_dict"
    by (simp add: resolve_tickers_def)
next
  assume "prepare_tickers self \<noteq> []"
  then show "resolve_tickers self (res_dict, date)
      = concat (map (\<lambda>t. for_currency self res_dict date [] [t]) (prepare_tickers self))"
    using for_currency_append [of self res_dict date "[]" "prepare_tickers self"]
    by (simp add: resolve_tickers_def)
next
  fix xxx :: string
  assume "CHR ''*'' \<notin> set xxx"
  with assms show "for_currency self res_dict date [] [CHR ''*'' # xxx]
      = filter (\<lambda>r. currency_to r = PStr xxx) (dict_values res_dict)"
    by (rule star_to)
next
  fix xxx :: string
  assume "CHR ''*'' \<notin> set xxx \<and> xxx \<noteq> []"
  with assms show "for_currency self res_dict date [] [xxx @ ''*'']
      = filter (\<lambda>r. currency_from r = PStr xxx) (dict_values res_dict)"
    by (intro star_from) simp_all
next
  fix t
  assume "t \<in> set (prepare_tickers self)"
  then show "py_upper t = t" by (rule prepare_tickers_upper)
qed

lemmas eval_tickers = prepare_tickers_def init_def py_replace_def py_rstrip_def py_strip_def py_isspace_def
  py_upper_def upper_char_def ascii_lowercase_def ascii_uppercase_def

text \<open>
  Witness for C3: a dictionary of three pairs, resolved with no tickers, with \<open>usd*\<close>
  and with \<open>*eur\<close>.
\<close>

theorem wildcard_resolver_witness:
  "distinct (map fst pair_dict)
   \<and> resolve_tickers (init BinanceMethod None []) (pair_dict, PStr ''08.06.2023'') = [usd_eur, usd_gbp, rub_eur]
   \<and> resolve_tickers (init BinanceMethod None ''usd*'') (pair_dict, PStr ''08.06.2023'') = [usd_eur, usd_gbp]
   \<and> resolve_tickers (init BinanceMethod None ''*eur'') (pair_dict, PStr ''08.06.2023'') = [usd_eur, rub_eur]"
proof -
  have d: "distinct (map fst pair_dict)"
    by (simp add: pair_dict_def)
  have t0: "prepare_tickers (init BinanceMethod None []) = []"
    by (simp add: eval_tickers)
  have t1: "prepare_tickers (init BinanceMethod None ''usd*'') = [''USD'' @ ''*'']"
    by (simp add: eval_tickers)
  have t2: "prepare_tickers (init BinanceMethod None ''*eur'') = [CHR ''*'' # ''EUR'']"
    by (simp add: eval_tickers)
  have vals: "dict_values pair_dict = [usd_eur, usd_gbp, rub_eur]"
    by (simp add: pair_dict_def dict_values_def)
  note w0 = wildcard_resolver [OF d, of "init BinanceMethod None []" "PStr ''08.06.2023''"]
  note w1 = wildcard_resolver [OF d, of "init BinanceMethod None ''usd*''" "PStr ''08.06.2023''"]
  note w2 = wildcard_resolver [OF d, of "init BinanceMethod None ''*eur''" "PStr ''08.06.2023''"]
  have r0: "resolve_tickers (init BinanceMethod None []) (pair_dict, PStr ''08.06.2023'') = [usd_eur, usd_gbp, rub_eur]"
    using w0 [THEN conjunct1] t0 vals by simp
  have "resolve_tickers (init BinanceMethod None ''usd*'') (pair_dict, PStr ''08.06.2023'')
        = for_currency (init BinanceMethod None ''usd*'') pair_dict (PStr ''08.06.2023'') [] [''USD'' @ ''*'']"
    using w1 [THEN conjunct2, THEN conjunct1] t1 by (simp del: for_currency.simps)
  also have "\<dots> = filter (\<lambda>r. currency_from r = PStr ''USD'') (dict_values pair_dict)"
    using w1 [THEN conjunct2, THEN conjunct2, THEN conjunct2, THEN conjunct1, THEN spec, of "''USD''"]
    by (simp del: for_currency.simps)
  also have "\<dots> = [usd_eur, usd_gbp]"
    by (simp add: vals) (simp add: usd_eur_def usd_gbp_def rub_eur_def)
  finally have r1: "resolve_tickers (init BinanceMethod None ''usd*'') (pair_dict, PStr ''08.06.2023'')
        = [usd_eur, usd_gbp]" .
  have "resolve_tickers (init BinanceMethod None ''*eur'') (pair_dict, PStr ''08.06.2023'')
        = for_currency (init BinanceMethod None ''*eur'') pair_dict (PStr ''08.06.2023'') [] [CHR ''*'' # ''EUR'']"
    using w2 [THEN conjunct2, THEN conjunct1] t2 by (simp del: for_currency.simps)
  also have "\<dots> = filter (\<lambda>r. currency_to r = PStr ''EUR'') (dict_values pair_dict)"
    using w2 [THEN conjunct2, THEN conjunct2, THEN conjunct1, THEN spec, of "''EUR''"]
    by (simp del: for_currency.simps)
  also have "\<dots> = [usd_eur, rub_eur]"
    by (simp add: vals) (simp add: usd_eur_def usd_gbp_def rub_eur_def)
  finally have r2: "resolve_tickers (init BinanceMethod None ''*eur'') (pair_dict, PStr ''08.06.2023'')
        = [usd_eur, rub_eur]" .
  from d r0 r1 r2 show ?thesis by simp
qed

text \<open>
  Claim C1 at a failing input. The tickers \<open>BTCUSDT,*EUR\<close> are two tokens; the
  dictionary has the pair \<open>BTCUSDT\<close> and no record whose \<open>currency_to\<close> is \<open>EUR\<close>.
  The result has one entry: nothing stands for the token \<open>*EUR\<close>, since
  \<open>_list_appender\<close> appends one entry per key that \<open>find_key\<close> found, and it found
  none. (The placeholder that \<open>_list_appender\<close> passes to \<open>dict.get\<close> is never used:
  every key it looks up comes from the dictionary.)
\<close>

theorem wildcard_without_match_is_dropped:
  "prepare_tickers (init BinanceMethod None ''BTCUSDT,*EUR'') = [''BTCUSDT'', ''*EUR'']
   \<and> resolve_tickers (init BinanceMethod None ''BTCUSDT,*EUR'') ([(PStr ''BTCUSDT'', btc_usdt)], PStr ''08.06.2023'')
       = [btc_usdt]"
  by (simp add: eval_tickers resolve_tickers_def list_appender_def find_key_def dict_get_def
      currency_of_def btc_usdt_def)

text \<open>
  Claim C10. The placeholder for a token that was not found has the token as
  \<open>currency_from\<close>; its \<open>currency_to\<close> is the adapter's base currency when that is set
  and not empty, and the token otherwise. The base currency of an adapter is \<open>RUB\<close> for
  \<open>CBRFMethod\<close>, \<open>EUR\<close> for \<open>ECBMethod\<close> and the configured one for the others, so a
  pair-derived adapter with no base currency gives a placeholder whose two currencies are
  equal. An exact token with no entry in the dictionary yields exactly this placeholder.
\<close>

theorem not_found_placeholder_currencies:
  "currency_from (add_currency_not_found_error self token date) = PStr token
   \<and> currency_to (add_currency_not_found_error self token date)
       = (case base_currency self of
            Some b \<Rightarrow> if b \<noteq> [] then PStr b else PStr token
          | None \<Rightarrow> PStr token)
   \<and> base_currency (init CBRFMethod bc ts) = Some ''RUB''
   \<and> base_currency (init ECBMethod bc ts) = Some ''EUR''
   \<and> (k \<noteq> CBRFMethod \<and> k \<noteq> ECBMethod \<longrightarrow> base_currency (init k bc ts) = bc)
   \<and> (k \<noteq> CBRFMethod \<and> k \<noteq> ECBMethod \<and> (bc = None \<or> bc = Some []) \<longrightarrow>
        currency_to (add_currency_not_found_error (init k bc ts) token date)
          = currency_from (add_currency_not_found_error (init k bc ts) token date))
   \<and> (\<not> (CHR ''*'' \<in> set token \<and> (hd token = CHR ''*'' \<or> last token = CHR ''*''))
        \<and> map_of res_dict (PStr token) = None \<longrightarrow>
        for_currency self res_dict date [] [token] = [add_currency_not_found_error self token date])"
  by (cases k) (auto simp: add_currency_not_found_error_def init_def dict_get_def split: option.splits)

text \<open>Witness for C10: the token \<open>ZZZ\<close>, with and without a base currency.\<close>

theorem not_found_placeholder_currencies_witness:
  "resolve_tickers (init BinanceMethod None ''zzz'') ([(PStr ''BTCUSDT'', btc_usdt)], PStr ''08.06.2023'')
     = [add_currency_not_found_error (init BinanceMethod None ''zzz'') ''ZZZ'' (PStr ''08.06.2023'')]
   \<and> currency_from (add_currency_not_found_error (init BinanceMethod None ''zzz'') ''ZZZ'' (PStr ''08.06.2023'')) = PStr ''ZZZ''
   \<and> currency_to (add_currency_not_found_error (init BinanceMethod None ''zzz'') ''ZZZ'' (PStr ''08.06.2023'')) = PStr ''ZZZ''
   \<and> currency_to (add_currency_not_found_error (init BinanceMethod (Some ''USDT'') ''zzz'') ''ZZZ'' (PStr ''08.06.2023'')) = PStr ''USDT''
   \<and> currency_to (add_currency_not_found_error (init CBRFMethod None ''zzz'') ''ZZZ'' (PStr ''08.06.2023'')) = PStr ''RUB''"
proof -
  let ?a = "init BinanceMethod None ''zzz''"
  let ?d = "[(PStr ''BTCUSDT'', btc_usdt)]"
  note p = not_found_placeholder_currencies
    [of ?a "''ZZZ''" "PStr ''08.06.2023''" None "''zzz''" BinanceMethod ?d]
  note q = not_found_placeholder_currencies
    [of "init BinanceMethod (Some ''USDT'') ''zzz''" "''ZZZ''" "PStr ''08.06.2023''" "Some ''USDT''" "''zzz''" BinanceMethod ?d]
  note r = not_found_placeholder_currencies
    [of "init CBRFMethod None ''zzz''" "''ZZZ''" "PStr ''08.06.2023''" None "''zzz''" BinanceMethod ?d]
  have t: "prepare_tickers ?a = [''ZZZ'']"
    by (simp add: eval_tickers)
  have loop: "for_currency ?a ?d (PStr ''08.06.2023'') [] [''ZZZ'']
        = [add_currency_not_found_error ?a ''ZZZ'' (PStr ''08.06.2023'')]"
    using p by (simp del: for_currency.simps)
  have a1: "resolve_tickers ?a (?d, PStr ''08.06.2023'')
        = [add_currency_not_found_error ?a ''ZZZ'' (PStr ''08.06.2023'')]"
    using loop t by (simp add: resolve_tickers_def del: for_currency.simps)
  have a2: "currency_from (add_currency_not_found_error ?a ''ZZZ'' (PStr ''08.06.2023'')) = PStr ''ZZZ''"
    using p by simp
  have a3: "currency_to (add_currency_not_found_error ?a ''ZZZ'' (PStr ''08.06.2023'')) = PStr ''ZZZ''"
    using p by simp
  have a4: "currency_to (add_currency_not_found_error (init BinanceMethod (Some ''USDT'') ''zzz'') ''ZZZ'' (PStr ''08.06.2023'')) = PStr ''USDT''"
    using q by simp
  have a5: "currency_to (add_currency_not_found_error (init CBRFMethod None ''zzz'') ''ZZZ'' (PStr ''08.06.2023'')) = PStr ''RUB''"
    using r by simp
  from a1 a2 a3 a4 a5 show ?thesis by simp
qed

section \<open>The normalized records\<close>

lemma dict_get_cases: "dict_get d k dflt \<in> set (dict_values d) \<or> dict_get d k dflt = dflt"
  by (auto simp: dict_get_def dict_values_def split: option.splits dest!: map_of_SomeD intro: rev_image_eqI)

lemma list_appender_elems:
  "r \<in> set (list_appender self d date currency opt) \<Longrightarrow>
     r \<in> set (dict_values d) \<or> r = add_currency_not_found_error self currency date"
  using dict_get_cases by (fastforce simp: list_appender_def)

lemma for_currency_single_elems:
  assumes "r \<in> set (for_currency self d date [] [t])"
  shows "r \<in> set (dict_values d) \<or> r = add_currency_not_found_error self t date"
proof (cases "CHR ''*'' \<in> set t \<and> hd t = CHR ''*''")
  case True
  with assms have "r \<in> set (list_appender self d date t To)" by simp
  then show ?thesis by (rule list_appender_elems)
next
  case False
  show ?thesis
  proof (cases "CHR ''*'' \<in> set t \<and> last t = CHR ''*''")
    case True
    with False assms have "r \<in> set (list_appender self d date t From)" by auto
    then show ?thesis by (rule list_appender_elems)
  next
    case nowild: False
    with False assms have "r = dict_get d (PStr t) (add_currency_not_found_error self t date)" by auto
    with dict_get_cases [of d "PStr t" "add_currency_not_found_error self t date"]
    show ?thesis by auto
  qed
qed

lemma for_currency_elems:
  assumes "r \<in> set (for_currency self d date acc ts)"
  shows "r \<in> set acc \<or> r \<in> set (dict_values d) \<or> (\<exists>t \<in> set ts. r = add_currency_not_found_error self t date)"
proof -
  from assms have "r \<in> set acc \<or> (\<exists>t \<in> set ts. r \<in> set (for_currency self d date [] [t]))"
    by (subst (asm) for_currency_append) auto
  then show ?thesis
    by (auto dest: for_currency_single_elems simp del: for_currency.simps)
qed

lemma resolve_tickers_elems:
  "r \<in> set (resolve_tickers self (d, date)) \<Longrightarrow>
     r \<in> set (dict_values d) \<or> (\<exists>t. r = add_currency_not_found_error self t date)"
  by (auto simp: resolve_tickers_def Let_def split: if_splits dest!: for_currency_elems)

lemma placeholder_invariant: "record_invariant_of_code (add_currency_not_found_error self t date)"
  by (simp add: record_invariant_of_code_def add_currency_not_found_error_def)

text \<open>
  The records of the code as it is. Every record that \<open>handle_response\<close> returns, for
  any adapter and any response, is either a real record, with \<open>nominal\<close> and with
  neither \<open>scale\<close> nor \<open>error\<close>, or an error placeholder with \<open>rate\<close> equal to
  the string \<open>"0"\<close>, \<open>scale\<close> equal to 0, no \<open>nominal\<close> and an \<open>error\<close>. So the
  invariant of claim C2 holds of every real record, and fails of every placeholder on the
  one key.
\<close>

lemma normalized_records_invariant:
  assumes "handle_response e self raw w = (Inr records, w')"
  shows "\<forall>r \<in> set records. record_invariant_of_code r"
proof
  fix r
  assume r: "r \<in> set records"
  from assms obtain d date w1 where
    prepared: "prepare_data e self raw w = (Inr (d, date), w1)" and
    records: "records = resolve_tickers self (d, date)"
    by (auto simp: handle_response_def dest!: and_then_Inr)
  from prepared have wf: "well_formed d" by (rule prepare_data_well_formed)
  from r records
  consider (stored) "r \<in> set (dict_values d)"
    | (placeholder) t where "r = add_currency_not_found_error self t date"
    by (auto dest: resolve_tickers_elems)
  then show "record_invariant_of_code r"
  proof cases
    case stored
    with wf have "real_record r" by (simp add: well_formed_def)
    then show ?thesis by (simp add: real_record_def record_invariant_of_code_def)
  next
    case placeholder
    then show ?thesis by (simp add: placeholder_invariant)
  qed
qed

lemmas eval_cbrf = handle_response_def prepare_data_def cbrf_prepare_data_def cbrf_body_def
  cbrf_response_def iter_children_def and_then_def cbrf_update_def of_opt_def resolve_tickers_def
  dict_get_def dict_values_def add_currency_not_found_error_def Let_def py_replace_def

lemma cbrf_usd_scenario:
  "handle_response e (init CBRFMethod bc ''USD'') (Single cbrf_response) w = (Inr [usd_rub], w)"
proof -
  have t: "prepare_tickers (init CBRFMethod bc ''USD'') = [''USD'']"
    by (simp add: eval_tickers)
  have k: "kind (init CBRFMethod bc ''USD'') = CBRFMethod"
    and b: "base_currency (init CBRFMethod bc ''USD'') = Some ''RUB''"
    by (simp_all add: init_def)
  show ?thesis
    by (simp add: eval_cbrf t k b usd_rub_def)
qed

lemma cbrf_not_found_scenario:
  "handle_response e (init CBRFMethod bc ''USD,ZZZ'') (Single cbrf_response) w
     = (Inr [usd_rub, zzz_not_found], w)"
proof -
  have t: "prepare_tickers (init CBRFMethod bc ''USD,ZZZ'') = [''USD'', ''ZZZ'']"
    by (simp add: eval_tickers)
  have k: "kind (init CBRFMethod bc ''USD,ZZZ'') = CBRFMethod"
    and b: "base_currency (init CBRFMethod bc ''USD,ZZZ'') = Some ''RUB''"
    by (simp_all add: init_def)
  show ?thesis
    by (simp add: eval_cbrf t k b usd_rub_def zzz_not_found_def)
qed

text \<open>
  An instance: the central bank's table with the tickers \<open>USD,ZZZ\<close> gives one real
  record and one placeholder.
\<close>

lemma normalized_records_invariant_witness:
  "handle_response offline_env (init CBRFMethod None ''USD,ZZZ'') (Single cbrf_response) empty_world
     = (Inr [usd_rub, zzz_not_found], empty_world)
   \<and> record_invariant_of_code usd_rub \<and> record_invariant_of_code zzz_not_found"
  using cbrf_not_found_scenario [of offline_env None empty_world]
    normalized_records_invariant [of offline_env "init CBRFMethod None ''USD,ZZZ''" "Single cbrf_response"
      empty_world "[usd_rub, zzz_not_found]" empty_world]
  by simp

text \<open>
  Claim C2 at a failing input. The central bank's table has no entry \<open>ZZZ\<close>, so the
  tickers \<open>USD,ZZZ\<close> give one real record and one placeholder. The placeholder has
  \<open>rate\<close> equal to the string \<open>"0"\<close> and an \<open>error\<close>, but no \<open>nominal\<close>:
  \<open>add_currency_not_found_error\<close> writes its zero under the key \<open>scale\<close>, while
  every \<open>prepare_data\<close> and the stored model name that field \<open>nominal\<close>. The
  invariant of the claim fails of it.
\<close>

theorem placeholder_has_scale_not_nominal:
  "handle_response offline_env (init CBRFMethod None ''USD,ZZZ'') (Single cbrf_response) empty_world
     = (Inr [usd_rub, zzz_not_found], empty_world)
   \<and> rate zzz_not_found = PStr ''0''
   \<and> error zzz_not_found = Some \<lparr> code = ''404'', description = ''Currency not found'' \<rparr>
   \<and> nominal zzz_not_found = None
   \<and> scale zzz_not_found = Some (PInt 0)
   \<and> \<not> record_invariant zzz_not_found"
  using cbrf_not_found_scenario [of offline_env None empty_world]
  by (simp add: record_invariant_def zzz_not_found_def)

text \<open>
  The scenario of claim C8 on the code as it is. For the central bank's table with the two
  entries \<open>USD\<close> (Nominal 1, Value \<open>90,50\<close>) and \<open>EUR\<close> (Nominal 1, Value
  \<open>100,00\<close>) and the ticker string \<open>USD\<close>, the result is exactly one record:
  \<open>currency_from\<close> is \<open>USD\<close>, \<open>currency_to\<close> is \<open>RUB\<close>, \<open>rate\<close> is
  \<open>90.50\<close> and there is no \<open>error\<close>, as the claim says; \<open>nominal\<close> is the text of
  the XML element.
\<close>

lemma cbrf_usd_scenario_record:
  "handle_response e (init CBRFMethod bc ''USD'') (Single cbrf_response) w
     = (Inr [\<lparr> rate_date = PStr ''08.06.2023'', currency_from = PStr ''USD'', currency_to = PStr ''RUB'',
               rate = PStr ''90.50'', nominal = Some (PStr ''1''), scale = None, error = None \<rparr>], w)"
  using cbrf_usd_scenario [of e bc w] by (simp add: usd_rub_def)

text \<open>
  The other adapters write the integer 1 as \<open>nominal\<close>; here the one of the European
  feed, for any entry.
\<close>

lemma ecb_nominal_is_integer:
  "nominal (dict_get (ecb_update self date val_dict res_dict) (of_opt (at_currency val_dict)) dflt)
     = Some (PInt 1)"
  by (simp add: ecb_update_def dict_get_def update_conv')

text \<open>
  Claim C8 at a failing input. For the scenario of the claim, \<open>nominal\<close> of the one
  record is the string \<open>1\<close>, not the integer 1: \<open>CBRFMethod.prepare_data\<close> copies
  the text of the \<open>Nominal\<close> element and converts nothing, while the docstring of
  \<open>prepare_data\<close> gives the field the type int, the other adapters write the integer 1
  and the stored column is an integer.
\<close>

theorem cbrf_nominal_is_text:
  "handle_response offline_env (init CBRFMethod None ''USD'') (Single cbrf_response) empty_world
     = (Inr [usd_rub], empty_world)
   \<and> nominal usd_rub = Some (PStr ''1'')
   \<and> nominal usd_rub \<noteq> Some (PInt 1)"
  using cbrf_usd_scenario [of offline_env None empty_world] by (simp add: usd_rub_def)

section \<open>Validation before any request\<close>

lemma raise_if_any_iff:
  "raise_if_any bad ts = (if \<exists>t \<in> set ts. bad t then Inl Exception else Inr ())"
  by (induction ts) auto

lemma validate_tickers_iff:
  "validate_tickers self =
     (if \<exists>t \<in> set (prepare_tickers self). breaks_length_rule (kind self) t then Inl Exception else Inr ())"
  by (cases "kind self") (simp_all add: validate_tickers_def raise_if_any_iff breaks_length_rule_def not_le)

lemma kind_init: "kind (init k bc ts) = k"
  by (simp add: init_def)

text \<open>
  Claim C4. For every adapter and every ticker string with a parsed token that breaks the
  adapter's length rule, \<open>validate_tickers\<close> raises (the bare \<open>Exception\<close> of the
  code, which the specification calls TickerFormatError). The task calls
  \<open>validate_tickers\<close> before \<open>make_request\<close> and catches \<open>RequestException\<close> only, so
  the exception leaves the task: the world after the run is the world before it with one
  reading of the clock, that is, no request was sent, no rate was stored and the
  configuration row was not written.
\<close>

theorem validation_short_circuits:
  assumes "find (\<lambda>row. pk row = rate_type_id) (currency_rate_types w) = Some rate_type"
    and "map_of METHODS (autoload_method rate_type) = Some k"
    and "\<exists>t \<in> set (prepare_tickers (init k (type_base_currency rate_type) (type_tickers rate_type))).
           breaks_length_rule k t"
  shows "validate_tickers (init k (type_base_currency rate_type) (type_tickers rate_type)) = Inl Exception
       \<and> run_currency_rate_checker e rate_type_id w = (Some Exception, w\<lparr>ticks := Suc (ticks w)\<rparr>)
       \<and> requests (snd (run_currency_rate_checker e rate_type_id w)) = requests w
       \<and> currency_rates (snd (run_currency_rate_checker e rate_type_id w)) = currency_rates w
       \<and> currency_rate_types (snd (run_currency_rate_checker e rate_type_id w)) = currency_rate_types w"
proof -
  let ?m = "init k (type_base_currency rate_type) (type_tickers rate_type)"
  have v: "validate_tickers ?m = Inl Exception"
    using assms(3) by (simp add: validate_tickers_iff kind_init)
  have run: "run_currency_rate_checker e rate_type_id w = (Some Exception, w\<lparr>ticks := Suc (ticks w)\<rparr>)"
    using assms(1,2) v
    by (simp add: run_currency_rate_checker_def now_def Let_def except_RequestException_def)
  from v run show ?thesis by simp
qed

text \<open>Witness for C4: the central bank's adapter with the ticker \<open>US\<close>.\<close>

theorem validation_short_circuits_witness:
  "find (\<lambda>row. pk row = 1) (currency_rate_types (cbrf_world\<lparr>currency_rate_types := [cbrf_type\<lparr>type_tickers := ''US''\<rparr>]\<rparr>))
     = Some (cbrf_type\<lparr>type_tickers := ''US''\<rparr>)
   \<and> map_of METHODS ''cbrf_method'' = Some CBRFMethod
   \<and> prepare_tickers (init CBRFMethod None ''US'') = [''US'']
   \<and> breaks_length_rule CBRFMethod ''US''
   \<and> validate_tickers (init CBRFMethod None ''US'') = Inl Exception
   \<and> run_currency_rate_checker cbrf_env 1 (cbrf_world\<lparr>currency_rate_types := [cbrf_type\<lparr>type_tickers := ''US''\<rparr>]\<rparr>)
       = (Some Exception, cbrf_world\<lparr>currency_rate_types := [cbrf_type\<lparr>type_tickers := ''US''\<rparr>], ticks := 1\<rparr>)"
proof -
  let ?rt = "cbrf_type\<lparr>type_tickers := ''US''\<rparr>"
  let ?w = "cbrf_world\<lparr>currency_rate_types := [?rt]\<rparr>"
  have f: "find (\<lambda>row. pk row = 1) (currency_rate_types ?w) = Some ?rt"
    by (simp add: cbrf_type_def)
  have m: "map_of METHODS (autoload_method ?rt) = Some CBRFMethod"
    by (simp add: METHODS_def cbrf_type_def)
  have t: "prepare_tickers (init CBRFMethod None ''US'') = [''US'']"
    by (simp add: eval_tickers)
  have b: "breaks_length_rule CBRFMethod ''US''"
    by (simp add: breaks_length_rule_def)
  have fields: "type_base_currency ?rt = None" "type_tickers ?rt = ''US''" "autoload_method ?rt = ''cbrf_method''"
    by (simp_all add: cbrf_type_def)
  have h: "\<exists>t \<in> set (prepare_tickers (init CBRFMethod (type_base_currency ?rt) (type_tickers ?rt))).
             breaks_length_rule CBRFMethod t"
    using t b by (simp add: fields)
  note main = validation_short_circuits [OF f m h, of cbrf_env]
  have tk: "ticks ?w = 0"
    by (simp add: cbrf_world_def empty_world_def)
  from main f m t b show ?thesis
    by (simp add: fields tk)
qed

section \<open>Transport failures\<close>

lemma validate_usd: "validate_tickers (init CBRFMethod bc ''USD'') = Inr ()"
proof -
  have "prepare_tickers (init CBRFMethod bc ''USD'') = [''USD'']"
    by (simp add: eval_tickers)
  then show ?thesis
    by (simp add: validate_tickers_iff kind_init breaks_length_rule_def)
qed

lemma make_request_refused:
  assumes "kind self \<noteq> XEMethod"
    and "net e (length (requests w)) (req_type self) (url self) = Inl x"
  shows "make_request e self w
         = (Inl (RequestException x), w\<lparr>requests := requests w @ [(req_type self, url self)]\<rparr>)"
  using assms
  by (cases "kind self") (simp_all add: make_request_def request_def and_then_def Let_def)

lemma make_request_status:
  assumes "kind self \<noteq> XEMethod"
    and "net e (length (requests w)) (req_type self) (url self) = Inr r"
    and "400 \<le> status_code r" and "status_code r < 600"
  shows "make_request e self w
         = (Inl (RequestException (ResponseAttr (Some (status_code r, reason r)))),
            w\<lparr>requests := requests w @ [(req_type self, url self)]\<rparr>)"
  using assms
  by (cases "kind self")
     (simp_all add: make_request_def request_def and_then_def Let_def raise_for_status_def)

lemma run_transport_failure:
  assumes "find (\<lambda>row. pk row = rate_type_id) (currency_rate_types w) = Some rate_type"
    and "map_of METHODS (autoload_method rate_type) = Some k"
    and "validate_tickers (init k (type_base_currency rate_type) (type_tickers rate_type)) = Inr ()"
    and "make_request e (init k (type_base_currency rate_type) (type_tickers rate_type))
           (w\<lparr>ticks := Suc (ticks w)\<rparr>) = (Inl (RequestException x), w1)"
  shows "run_currency_rate_checker e rate_type_id w =
           (case x of
              ResponseAttr (Some (status, rsn)) \<Rightarrow>
                (None, save_rate_type
                         (rate_type\<lparr>autoload_lastrun := Some (clock e (ticks w)),
                                    autoload_lastresult := StatusList [[(status, rsn)]]\<rparr>) w1)
            | ResponseAttr None \<Rightarrow> (Some AttributeError, w1)
            | NoResponseAttr \<Rightarrow>
                (None, save_rate_type
                         (rate_type\<lparr>autoload_lastrun := Some (clock e (ticks w)),
                                    autoload_lastresult := StatusList [[(500, ''ConnectionError'')]]\<rparr>) w1))"
  using assms
  by (simp add: run_currency_rate_checker_def now_def Let_def except_RequestException_def
      split: request_exception.splits option.splits)

lemma make_request_keeps_tables:
  assumes "kind self \<noteq> XEMethod"
    and "net e (length (requests w)) (req_type self) (url self) = Inl x"
  shows "currency_rates (snd (make_request e self w)) = currency_rates w
       \<and> currency_rate_types (snd (make_request e self w)) = currency_rate_types w"
  using make_request_refused [OF assms] by simp

lemma offline_run:
  "run_currency_rate_checker offline_env 1 cbrf_world
     = (Some AttributeError,
        cbrf_world\<lparr>ticks := 1, requests := [(''GET'', ''https://www.cbr.ru/scripts/XML_daily.asp'')]\<rparr>)"
proof -
  let ?m = "init CBRFMethod (type_base_currency cbrf_type) (type_tickers cbrf_type)"
  have f: "find (\<lambda>row. pk row = 1) (currency_rate_types cbrf_world) = Some cbrf_type"
    by (simp add: cbrf_world_def cbrf_type_def)
  have m: "map_of METHODS (autoload_method cbrf_type) = Some CBRFMethod"
    by (simp add: METHODS_def cbrf_type_def)
  have v: "validate_tickers ?m = Inr ()"
    by (simp add: cbrf_type_def validate_usd)
  have r: "make_request offline_env ?m (cbrf_world\<lparr>ticks := Suc (ticks cbrf_world)\<rparr>)
           = (Inl (RequestException (ResponseAttr None)),
              cbrf_world\<lparr>ticks := 1, requests := [(''GET'', ''https://www.cbr.ru/scripts/XML_daily.asp'')]\<rparr>)"
    by (subst make_request_refused [where x = "ResponseAttr None"])
       (simp_all add: init_def offline_env_def cbrf_world_def empty_world_def)
  from run_transport_failure [OF f m v r] show ?thesis by simp
qed

lemma unavailable_run:
  "run_currency_rate_checker unavailable_env 1 cbrf_world
     = (None,
        cbrf_world\<lparr> ticks := 1,
                     requests := [(''GET'', ''https://www.cbr.ru/scripts/XML_daily.asp'')],
                     currency_rate_types :=
                       [cbrf_type\<lparr>autoload_lastrun := Some 1686300000000000,
                                  autoload_lastresult := StatusList [[(503, ''Service Unavailable'')]]\<rparr>] \<rparr>)"
proof -
  let ?m = "init CBRFMethod (type_base_currency cbrf_type) (type_tickers cbrf_type)"
  let ?r = "\<lparr> status_code = 503, reason = ''Service Unavailable'', content = ValCursXml None \<rparr>"
  have f: "find (\<lambda>row. pk row = 1) (currency_rate_types cbrf_world) = Some cbrf_type"
    by (simp add: cbrf_world_def cbrf_type_def)
  have m: "map_of METHODS (autoload_method cbrf_type) = Some CBRFMethod"
    by (simp add: METHODS_def cbrf_type_def)
  have v: "validate_tickers ?m = Inr ()"
    by (simp add: cbrf_type_def validate_usd)
  have r: "make_request unavailable_env ?m (cbrf_world\<lparr>ticks := Suc (ticks cbrf_world)\<rparr>)
           = (Inl (RequestException (ResponseAttr (Some (503, ''Service Unavailable'')))),
              cbrf_world\<lparr>ticks := 1, requests := [(''GET'', ''https://www.cbr.ru/scripts/XML_daily.asp'')]\<rparr>)"
    using make_request_status [of ?m unavailable_env "cbrf_world\<lparr>ticks := Suc (ticks cbrf_world)\<rparr>" ?r]
    by (simp add: init_def unavailable_env_def cbrf_world_def empty_world_def)
  from run_transport_failure [OF f m v r] show ?thesis
    by (simp add: save_rate_type_def cbrf_world_def empty_world_def cbrf_type_def
        unavailable_env_def offline_env_def)
qed

text \<open>
  Claim C5 at a failing input. The request is refused (no response arrives), so the
  exception's \<open>response\<close> is \<open>None\<close>. The handler tests \<open>hasattr(exc, 'response')\<close>,
  which holds, and reads \<open>exc.response.status_code\<close>, which raises
  \<open>AttributeError\<close> inside the handler: the task ends with that exception, and the
  configuration row is not written (no last-run time stamp, no summary).
\<close>

theorem connection_error_leaves_no_summary:
  "net offline_env 0 ''GET'' ''https://www.cbr.ru/scripts/XML_daily.asp'' = Inl (ResponseAttr None)
   \<and> fst (run_currency_rate_checker offline_env 1 cbrf_world) = Some AttributeError
   \<and> currency_rate_types (snd (run_currency_rate_checker offline_env 1 cbrf_world)) = [cbrf_type]
   \<and> autoload_lastrun cbrf_type = None
   \<and> autoload_lastresult cbrf_type = DefaultResult"
  using offline_run by (simp add: offline_env_def cbrf_world_def cbrf_type_def)

section \<open>Persisting\<close>

lemma run_success:
  assumes "find (\<lambda>row. pk row = rate_type_id) (currency_rate_types w) = Some rate_type"
    and "map_of METHODS (autoload_method rate_type) = Some k"
    and "validate_tickers (init k (type_base_currency rate_type) (type_tickers rate_type)) = Inr ()"
    and "make_request e (init k (type_base_currency rate_type) (type_tickers rate_type))
           (w\<lparr>ticks := Suc (ticks w)\<rparr>) = (Inr response, w1)"
    and "create_rate e rate_type_id response w1 = (Inr summary, w2)"
  shows "run_currency_rate_checker e rate_type_id w =
           (None, save_rate_type
                    (rate_type\<lparr>autoload_lastrun := Some (clock e (ticks w)),
                               autoload_lastresult := RateList summary\<rparr>) w2)"
  using assms
  by (simp add: run_currency_rate_checker_def now_def Let_def)

lemma create_rate_new:
  assumes "error r = None" and "rate_date r = PStr s" and "strptime_dmy e s = Some valid_from"
    and "Decimal e (py_or (rate r) (PStr ''0'')) = Inr dec"
    and "\<not> rate_exists (currency_rates w) rate_type_id r valid_from dec"
    and "scale r = None"
  shows "create_rate e rate_type_id [r] w =
           (Inr [r],
            w\<lparr> ticks := Suc (ticks w),
               currency_rates := currency_rates w @
                 [\<lparr> row_rate_type_id = rate_type_id, row_currency_from = currency_from r,
                    row_currency_to = currency_to r, row_rate = dec,
                    row_rate_date = clock e (ticks w), row_nominal = nominal r \<rparr>] \<rparr>)"
  using assms by (simp add: save_currency_rate_def now_def Let_def and_then_def)

lemma create_rate_duplicate:
  assumes "error r = None" and "rate_date r = PStr s" and "strptime_dmy e s = Some valid_from"
    and "Decimal e (py_or (rate r) (PStr ''0'')) = Inr dec"
    and "rate_exists (currency_rates w) rate_type_id r valid_from dec"
  shows "create_rate e rate_type_id [r] w =
           (Inr [r\<lparr>error := Some \<lparr> code = ''429 '', description = ''Duplicate'' \<rparr>\<rparr>], w)"
  using assms by (simp add: and_then_def duplicate_error_def)

lemma make_request_cbrf_usd:
  assumes "net e (length (requests w)) ''GET'' ''https://www.cbr.ru/scripts/XML_daily.asp'' = Inr cbrf_response"
  shows "make_request e (init CBRFMethod bc ''USD'') w
           = (Inr [usd_rub], w\<lparr>requests := requests w @ [(''GET'', ''https://www.cbr.ru/scripts/XML_daily.asp'')]\<rparr>)"
proof -
  have a: "kind (init CBRFMethod bc ''USD'') = CBRFMethod"
    "req_type (init CBRFMethod bc ''USD'') = ''GET''"
    "url (init CBRFMethod bc ''USD'') = ''https://www.cbr.ru/scripts/XML_daily.asp''"
    by (simp_all add: init_def)
  have ok: "raise_for_status cbrf_response = Inr ()"
    by (simp add: raise_for_status_def cbrf_response_def)
  show ?thesis
    using assms by (simp add: make_request_def a request_def Let_def and_then_def ok cbrf_usd_scenario)
qed

lemma decimal_usd: "Decimal cbrf_env (py_or (rate usd_rub) (PStr ''0'')) = Inr 905000000000"
  by (simp add: Decimal_def py_or_def usd_rub_def cbrf_env_def offline_env_def)

lemma first_run: "run_currency_rate_checker cbrf_env 1 cbrf_world = (None, after_first_run)"
proof -
  let ?m = "init CBRFMethod (type_base_currency cbrf_type) (type_tickers cbrf_type)"
  let ?w1 = "cbrf_world\<lparr>ticks := 1, requests := [(''GET'', ''https://www.cbr.ru/scripts/XML_daily.asp'')]\<rparr>"
  have f: "find (\<lambda>row. pk row = 1) (currency_rate_types cbrf_world) = Some cbrf_type"
    by (simp add: cbrf_world_def cbrf_type_def)
  have m: "map_of METHODS (autoload_method cbrf_type) = Some CBRFMethod"
    by (simp add: METHODS_def cbrf_type_def)
  have v: "validate_tickers ?m = Inr ()"
    by (simp add: cbrf_type_def validate_usd)
  have r: "make_request cbrf_env ?m (cbrf_world\<lparr>ticks := Suc (ticks cbrf_world)\<rparr>) = (Inr [usd_rub], ?w1)"
    by (simp add: cbrf_type_def make_request_cbrf_usd cbrf_env_def cbrf_world_def empty_world_def)
  have c: "create_rate cbrf_env 1 [usd_rub] ?w1
           = (Inr [usd_rub], ?w1\<lparr>ticks := 2, currency_rates := [first_row]\<rparr>)"
    by (subst create_rate_new [where s = "''08.06.2023''" and valid_from = 1686182400000000
          and dec = 905000000000])
       (simp_all add: decimal_usd, simp_all add: usd_rub_def cbrf_env_def offline_env_def rate_exists_def
          cbrf_world_def empty_world_def first_row_def)
  from run_success [OF f m v r c] show ?thesis
    by (simp add: save_rate_type_def cbrf_world_def empty_world_def cbrf_type_def after_first_run_def
        cbrf_env_def offline_env_def)
qed

lemma second_run: "run_currency_rate_checker cbrf_env 1 after_first_run = (None, after_second_run)"
proof -
  let ?rt = "cbrf_type\<lparr>autoload_lastrun := Some 1686300000000000, autoload_lastresult := RateList [usd_rub]\<rparr>"
  let ?m = "init CBRFMethod (type_base_currency ?rt) (type_tickers ?rt)"
  let ?w1 = "after_first_run\<lparr>ticks := 3,
      requests := [(''GET'', ''https://www.cbr.ru/scripts/XML_daily.asp''),
                   (''GET'', ''https://www.cbr.ru/scripts/XML_daily.asp'')]\<rparr>"
  have f: "find (\<lambda>row. pk row = 1) (currency_rate_types after_first_run) = Some ?rt"
    by (simp add: after_first_run_def cbrf_type_def)
  have m: "map_of METHODS (autoload_method ?rt) = Some CBRFMethod"
    by (simp add: METHODS_def cbrf_type_def)
  have v: "validate_tickers ?m = Inr ()"
    by (simp add: cbrf_type_def validate_usd)
  have r: "make_request cbrf_env ?m (after_first_run\<lparr>ticks := Suc (ticks after_first_run)\<rparr>) = (Inr [usd_rub], ?w1)"
    by (simp add: cbrf_type_def make_request_cbrf_usd cbrf_env_def after_first_run_def)
  have c: "create_rate cbrf_env 1 [usd_rub] ?w1
           = (Inr [usd_rub], ?w1\<lparr>ticks := 4, currency_rates := [first_row, second_row]\<rparr>)"
    by (subst create_rate_new [where s = "''08.06.2023''" and valid_from = 1686182400000000
          and dec = 905000000000])
       (simp_all add: decimal_usd, simp_all add: usd_rub_def cbrf_env_def offline_env_def rate_exists_def
          after_first_run_def first_row_def second_row_def)
  from run_success [OF f m v r c] show ?thesis
    by (simp add: save_rate_type_def after_first_run_def cbrf_type_def after_second_run_def
        cbrf_env_def offline_env_def)
qed

text \<open>
  Claim C6 at a failing input. Two successive runs for the same rate type get the same
  table from the provider. \<open>create_rate\<close> looks for a stored row whose \<open>rate_date\<close>
  is the date of the record, but \<open>CurrencyRate.save\<close> stores the time of saving as
  \<open>rate_date\<close>, so the row of the first run is not found by the second: the record is
  stored twice, and the summary of the second run has no \<open>error\<close> on it.
\<close>

theorem same_record_is_stored_twice:
  "run_currency_rate_checker cbrf_env 1 cbrf_world = (None, after_first_run)
   \<and> run_currency_rate_checker cbrf_env 1 after_first_run = (None, after_second_run)
   \<and> currency_rates after_first_run = [first_row]
   \<and> currency_rates after_second_run = [first_row, second_row]
   \<and> map autoload_lastresult (currency_rate_types after_second_run) = [RateList [usd_rub]]
   \<and> error usd_rub = None"
  using first_run second_run
  by (simp add: after_first_run_def after_second_run_def usd_rub_def)

section \<open>The per-pair rate lookup\<close>

lemma binance_request_rate_degrades:
  assumes "net e (length (requests w)) (req_type self) (binance_rate_url ticker) = Inr r"
    and "content r = AvgPriceJson price"
    and "price = None \<or> (\<exists>v. price = Some v \<and> \<not> truthy v)"
  shows "binance_request_rate e self ticker w
         = (Inr (PInt 0), w\<lparr>requests := requests w @ [(req_type self, binance_rate_url ticker)]\<rparr>)"
  using assms
  by (auto simp: binance_request_rate_def request_def and_then_def Let_def py_or_def)

lemma binance_degraded_record:
  assumes "binance_request_rate e self (base @ quote) w = (Inr (PInt 0), w1)"
  shows "binance_make_dct e self date base quote res_dict w
         = (Inr (AList.update (PStr (base @ quote))
                  \<lparr> rate_date = date, currency_from = PStr base, currency_to = PStr quote,
                    rate = PInt 0, nominal = Some (PInt 1), scale = None, error = None \<rparr> res_dict), w1)"
  using assms by (simp add: binance_make_dct_def and_then_def)

lemma garantex_request_rate_degrades:
  assumes "net e (length (requests w)) (req_type self) (garantex_curr_url ticker) = Inr r"
    and "content r = TradesJson (trade # older)"
    and "trade = None \<or> (\<exists>v. trade = Some v \<and> \<not> truthy v)"
  shows "garantex_request_rate e self ticker w
         = (Inr (PInt 0), w\<lparr>requests := requests w @ [(req_type self, garantex_curr_url ticker)]\<rparr>)"
  using assms
  by (auto simp: garantex_request_rate_def request_def and_then_def Let_def py_or_def)

lemma garantex_request_rate_no_trades:
  assumes "net e (length (requests w)) (req_type self) (garantex_curr_url ticker) = Inr r"
    and "content r = TradesJson []"
  shows "garantex_request_rate e self ticker w
         = (Inl IndexError, w\<lparr>requests := requests w @ [(req_type self, garantex_curr_url ticker)]\<rparr>)"
  using assms
  by (simp add: garantex_request_rate_def request_def and_then_def Let_def)

lemmas eval_lower = py_lower_def lower_char_def ascii_lowercase_def ascii_uppercase_def

text \<open>
  Claim C9 at a failing input. The marketplace lists the pair \<open>btcrub\<close>, and its trade
  history is the empty list: there is no usable price. \<open>request_rate\<close> reads
  \<open>response.json()[0]\<close>, which raises \<open>IndexError\<close>; the exception leaves
  \<open>make_request\<close>, so no record with rate 0 is produced.
\<close>

theorem garantex_empty_trade_list_raises:
  "net garantex_env 1 ''GET'' (garantex_curr_url ''btcrub'')
     = Inr \<lparr> status_code = 200, reason = ''OK'', content = TradesJson [] \<rparr>
   \<and> garantex_request_rate garantex_env (init GarantexMethod None ''btcrub'') ''btcrub''
       (empty_world\<lparr>requests := [(''GET'', ''https://garantex.org/api/v2/markets'')], ticks := 1\<rparr>)
       = (Inl IndexError,
          empty_world\<lparr>requests := [(''GET'', ''https://garantex.org/api/v2/markets''),
                                    (''GET'', ''https://garantex.org/api/v2/trades?market=btcrub'')],
                       ticks := 1\<rparr>)
   \<and> make_request garantex_env (init GarantexMethod None ''btcrub'') empty_world
       = (Inl IndexError,
          empty_world\<lparr>requests := [(''GET'', ''https://garantex.org/api/v2/markets''),
                                    (''GET'', ''https://garantex.org/api/v2/trades?market=btcrub'')],
                       ticks := 1\<rparr>)"
proof -
  let ?self = "init GarantexMethod None ''btcrub''"
  let ?w1 = "empty_world\<lparr>requests := [(''GET'', ''https://garantex.org/api/v2/markets'')], ticks := 1\<rparr>"
  let ?w2 = "empty_world\<lparr>requests := [(''GET'', ''https://garantex.org/api/v2/markets''),
                                    (''GET'', ''https://garantex.org/api/v2/trades?market=btcrub'')],
                       ticks := 1\<rparr>"
  have n: "net garantex_env 1 ''GET'' (garantex_curr_url ''btcrub'')
           = Inr \<lparr> status_code = 200, reason = ''OK'', content = TradesJson [] \<rparr>"
    by (simp add: garantex_env_def)
  have a: "kind ?self = GarantexMethod" "req_type ?self = ''GET''"
    "url ?self = ''https://garantex.org/api/v2/markets''"
    by (simp_all add: init_def)
  have t: "prepare_tickers ?self = [''BTCRUB'']"
    by (simp add: eval_tickers)
  have rr: "garantex_request_rate garantex_env ?self ''btcrub'' ?w1 = (Inl IndexError, ?w2)"
    by (subst garantex_request_rate_no_trades
          [where r = "\<lparr> status_code = 200, reason = ''OK'', content = TradesJson [] \<rparr>"])
       (simp_all add: a garantex_env_def empty_world_def garantex_curr_url_def)
  have low: "py_lower ''BTCRUB'' = ''btcrub''" "py_upper ''btc'' = ''BTC''" "py_upper ''rub'' = ''RUB''"
    by (simp_all add: eval_lower py_upper_def upper_char_def)
  have ft: "garantex_for_tick garantex_env ?self (PStr ''09.06.2023'')
              [\<lparr> market_id = ''btcrub'', ask_unit = ''btc'', bid_unit = ''rub'' \<rparr>] ''BTCRUB'' [] ?w1
            = (Inl IndexError, ?w2)"
    using rr by (simp add: garantex_for_tick_def low Let_def garantex_make_dct_def and_then_def)
  have mr: "make_request garantex_env ?self empty_world = (Inl IndexError, ?w2)"
    using ft
    by (simp add: make_request_def a request_def Let_def and_then_def raise_for_status_def
        handle_response_def prepare_data_def garantex_prepare_data_def now_def t
        garantex_env_def empty_world_def offline_env_def)
  from n rr mr show ?thesis by simp
qed

end
